theory Spec2Isabelle
  imports Complex_Main
begin

section \<open>Data model\<close>

text \<open>
  The backend keeps its state in three tables of a relational store (tickets, events,
  transactions) that the route handlers of \<^verbatim>\<open>src/routes/ticketRoutes.js\<close> and
  \<^verbatim>\<open>src/routes/eventRoutes.js\<close> read and write through single-row queries. A table is a
  list of rows. Columns keep their names; where two tables share a column name the
  ticket and transaction ones carry a prefix (\<open>ticket_event_id\<close>, \<open>txn_event_id\<close>,
  \<open>txn_status\<close>, \<open>txn_ticket_id\<close>). A text column that may hold null is a string whose empty
  value stands for null as well: the handlers only ever test such a column for truthiness.
  Row identifiers generated by the store are sequence numbers; the handlers only compare
  them for equality.

  JavaScript numbers are modelled as rationals (every finite double is one): ticket
  counters are integers of the store, the price and the requested quantity are rationals,
  and the product \<open>price_sol * quantity\<close> is the exact one.
\<close>

record ticket =
  ticket_id :: nat
  ticket_event_id :: string
  nft_mint_address :: string
  owner_wallet_address :: string
  seat_info :: string
  status :: string
  is_used :: bool
  original_purchase_date :: string
  original_purchaser_wallet_address :: string
  qr_code_data :: string
  qr_code_url :: string
  last_transfer_date :: "string option"
  updated_at :: "string option"

record event =
  event_id :: string
  name :: string
  total_tickets :: int
  available_tickets :: int
  price_sol :: rat
  candy_machine_id :: string

record transaction =
  transaction_id :: nat
  txn_event_id :: string
  payment_method :: string
  amount :: rat
  currency :: string
  txn_status :: string
  solana_transaction_signature :: "string option"
  txn_ticket_id :: "nat option"

record store =
  tickets :: "ticket list"
  events :: "event list"
  transactions :: "transaction list"
  next_ticket_id :: nat
  next_transaction_id :: nat

text \<open>
  What the collaborators of one request do: the clock, the ledger client (whether a string
  parses as a public key, and what the lookup of an asset by its mint address replies), the
  QR code generator (\<open>None\<close> when it throws), and for every store call of the handlers whether
  it comes back with an error object other than "no row".
\<close>

datatype ledger_reply = RpcError | NoAsset | NoOwner | OwnedBy string

record env =
  now :: string
  is_pubkey :: "string \<Rightarrow> bool"
  findNftByMint :: "string \<Rightarrow> ledger_reply"
  generateQrCodeDataUrl :: "string \<Rightarrow> string option"
  select_ticket_fails :: bool
  update_ticket_fails :: bool
  select_event_fails :: bool
  insert_ticket_fails :: bool
  update_event_fails :: bool
  insert_transaction_fails :: bool
  update_transaction_fails :: bool

datatype db_error = PGRST116 | DbFailure

datatype payload =
    ErrorJson string
  | MessageJson string
  | MessageTicketId string nat
  | MessageTicket string ticket
  | PurchaseInitiated string string rat rat nat

datatype response = Response (code: nat) (payload: payload)

section \<open>Request fields and store queries\<close>

text \<open>
  A field of a JSON body is absent (\<open>None\<close>) or a string. \<open>falsy\<close> is JavaScript's \<open>!x\<close> on
  it, \<open>val\<close> the string itself.
\<close>

definition falsy :: "string option \<Rightarrow> bool" where
  "falsy x = (case x of None \<Rightarrow> True | Some s \<Rightarrow> s = [])"

fun val :: "string option \<Rightarrow> string" where
  "val None = []"
| "val (Some s) = s"

text \<open>
  \<^verbatim>\<open>.select(..).eq(col, v).single()\<close>: the one matching row, and the error PGRST116 when
  no row or more than one row matches.
\<close>

definition select_single :: "bool \<Rightarrow> ('r \<Rightarrow> bool) \<Rightarrow> 'r list \<Rightarrow> db_error + 'r" where
  "select_single fails p rows =
     (if fails then Inl DbFailure
      else case filter p rows of [r] \<Rightarrow> Inr r | _ \<Rightarrow> Inl PGRST116)"

text \<open>\<^verbatim>\<open>.update(f).eq(col, v)\<close>: every matching row is rewritten.\<close>

definition update_where :: "('r \<Rightarrow> bool) \<Rightarrow> ('r \<Rightarrow> 'r) \<Rightarrow> 'r list \<Rightarrow> 'r list" where
  "update_where p f rows = map (\<lambda>r. if p r then f r else r) rows"

text \<open>
  Modelled from the spec: the declaration of the tickets table is not part of the sources.
  The spec gives the asset identifier a uniqueness constraint on Ticket ("the store's
  uniqueness constraint on asset identifier is the only thing preventing two Ticket rows"),
  so an insert of a second row with the same \<open>nft_mint_address\<close> is refused by the store. The
  insert draws the row identifier from the table's sequence; \<open>is_used\<close>, which the handler
  does not write, takes the column default false, and the two timestamps it does not write
  are null.
\<close>

definition insert_ticket :: "bool \<Rightarrow> store \<Rightarrow> ticket \<Rightarrow> db_error + (ticket \<times> store)" where
  "insert_ticket fails st row =
     (if fails then Inl DbFailure
      else if nft_mint_address row \<in> set (map nft_mint_address (tickets st)) then Inl DbFailure
      else let newTicket = row\<lparr>ticket_id := next_ticket_id st\<rparr>
           in Inr (newTicket,
                   st\<lparr>tickets := tickets st @ [newTicket],
                      next_ticket_id := Suc (next_ticket_id st)\<rparr>))"

definition insert_transaction ::
    "bool \<Rightarrow> store \<Rightarrow> transaction \<Rightarrow> db_error + (transaction \<times> store)" where
  "insert_transaction fails st row =
     (if fails then Inl DbFailure
      else let newRow = row\<lparr>transaction_id := next_transaction_id st\<rparr>
           in Inr (newRow,
                   st\<lparr>transactions := transactions st @ [newRow],
                      next_transaction_id := Suc (next_transaction_id st)\<rparr>))"

section \<open>Printing a counter\<close>

text \<open>
  The template literal \<^verbatim>\<open>`Ticket #${n}`\<close> prints the integer \<open>n\<close> in decimal, with a minus
  sign when it is negative.
\<close>

definition digit :: "nat \<Rightarrow> char" where
  "digit d = ''0123456789'' ! (d mod 10)"

function show_nat :: "nat \<Rightarrow> string" where
  "show_nat n = (if n < 10 then [digit n] else show_nat (n div 10) @ [digit (n mod 10)])"
  by pat_completeness auto
termination
  by (relation "measure id") auto

declare show_nat.simps [simp del]

definition show_int :: "int \<Rightarrow> string" where
  "show_int i = (if i < 0 then CHR ''-'' # show_nat (nat (- i)) else show_nat (nat i))"

section \<open>Ledger client\<close>

text \<open>
  \<^verbatim>\<open>verifyTicketOwnershipOnChain\<close> of \<^verbatim>\<open>src/services/solanaService.js\<close>. Building a
  \<^verbatim>\<open>PublicKey\<close> from a string that is not one throws, and so may the lookup; the function
  catches everything and answers false. The base-58 text of a public key built from a
  string is that string, so the final comparison is one of strings.
\<close>

definition verifyTicketOwnershipOnChain :: "env \<Rightarrow> string \<Rightarrow> string \<Rightarrow> bool" where
  "verifyTicketOwnershipOnChain e nftMintAddress expectedOwnerWalletAddress =
     (if \<not> is_pubkey e nftMintAddress then False
      else if \<not> is_pubkey e expectedOwnerWalletAddress then False
      else case findNftByMint e nftMintAddress of
             RpcError \<Rightarrow> False
           | NoAsset \<Rightarrow> False
           | NoOwner \<Rightarrow> False
           | OwnedBy currentOwner \<Rightarrow> currentOwner = expectedOwnerWalletAddress)"

section \<open>Route handlers\<close>

text \<open>
  Each handler takes the collaborators' behaviour, the store and the request fields, and
  returns the HTTP response with the store it leaves. The \<^verbatim>\<open>details\<close> field of an error
  body (the collaborator's own message) is left out.
\<close>

subsection \<open>POST /api/tickets/verify\<close>

definition mark_used :: "env \<Rightarrow> ticket \<Rightarrow> ticket" where
  "mark_used e t = t\<lparr>is_used := True, status := ''used'', updated_at := Some (now e)\<rparr>"

definition verify :: "env \<Rightarrow> store \<Rightarrow> string option \<Rightarrow> string option \<Rightarrow> response \<times> store" where
  "verify e st nftMintAddress ownerWalletAddress =
     (if falsy nftMintAddress then
        (Response 400 (ErrorJson ''NFT Mint Address is required for verification.''), st)
      else
        case select_single (select_ticket_fails e)
               (\<lambda>t. nft_mint_address t = val nftMintAddress) (tickets st) of
          Inl PGRST116 \<Rightarrow> (Response 404 (ErrorJson ''Ticket not found in our records.''), st)
        | Inl DbFailure \<Rightarrow>
            (Response 500 (ErrorJson ''Failed to retrieve ticket details from database.''), st)
        | Inr ticket \<Rightarrow>
            if is_used ticket then
              (Response 409 (ErrorJson ''Ticket has already been used.''), st)
            else
              let addressToVerify =
                    (if falsy ownerWalletAddress then owner_wallet_address ticket
                     else val ownerWalletAddress)
              in if addressToVerify = [] then
                   (Response 500
                      (ErrorJson ''Missing owner wallet address for on-chain verification.''), st)
                 else if \<not> verifyTicketOwnershipOnChain e (val nftMintAddress) addressToVerify then
                   (Response 403 (ErrorJson
                      ''Ticket ownership verification failed on-chain. This ticket is not held by the expected wallet.''),
                    st)
                 else if update_ticket_fails e then
                   (Response 500
                      (ErrorJson ''Failed to update ticket status after verification.''), st)
                 else
                   (Response 200
                      (MessageTicketId ''Ticket successfully verified and marked as used.''
                         (ticket_id ticket)),
                    st\<lparr>tickets :=
                         update_where (\<lambda>t. ticket_id t = ticket_id ticket) (mark_used e)
                           (tickets st)\<rparr>))"

subsection \<open>POST /api/tickets/mint-success\<close>

definition seat_label :: "event \<Rightarrow> string" where
  "seat_label ev = ''Ticket #'' @ show_int (total_tickets ev - available_tickets ev + 1)"

definition new_ticket_row :: "env \<Rightarrow> string \<Rightarrow> string \<Rightarrow> string \<Rightarrow> string \<Rightarrow> string \<Rightarrow> ticket" where
  "new_ticket_row e eventId nftMintAddress ownerWalletAddress seatInfo qrCodeUrl =
     \<lparr>ticket_id = 0,
      ticket_event_id = eventId,
      nft_mint_address = nftMintAddress,
      owner_wallet_address = ownerWalletAddress,
      seat_info = seatInfo,
      status = ''purchased'',
      is_used = False,
      original_purchase_date = now e,
      original_purchaser_wallet_address = ownerWalletAddress,
      qr_code_data = nftMintAddress,
      qr_code_url = qrCodeUrl,
      last_transfer_date = None,
      updated_at = None\<rparr>"

definition decrement_available :: "env \<Rightarrow> string \<Rightarrow> event \<Rightarrow> store \<Rightarrow> store" where
  "decrement_available e eventId ev st =
     (if update_event_fails e then st
      else st\<lparr>events :=
                update_where (\<lambda>r. event_id r = eventId)
                  (\<lambda>r. r\<lparr>available_tickets := available_tickets ev - 1\<rparr>) (events st)\<rparr>)"

text \<open>
  The optional \<^verbatim>\<open>transactionId\<close> of the request names a Transaction row; it is truthy
  whenever it is present.
\<close>

definition settle_transaction :: "env \<Rightarrow> nat option \<Rightarrow> string \<Rightarrow> ticket \<Rightarrow> store \<Rightarrow> store" where
  "settle_transaction e transactionId solanaTransactionSignature newTicket st =
     (case transactionId of
        None \<Rightarrow> st
      | Some tid \<Rightarrow>
          if update_transaction_fails e then st
          else st\<lparr>transactions :=
                    update_where (\<lambda>r. transaction_id r = tid)
                      (\<lambda>r. r\<lparr>txn_status := ''successful'',
                              solana_transaction_signature := Some solanaTransactionSignature,
                              txn_ticket_id := Some (ticket_id newTicket)\<rparr>)
                      (transactions st)\<rparr>)"

definition mint_success ::
    "env \<Rightarrow> store \<Rightarrow> string option \<Rightarrow> string option \<Rightarrow> string option \<Rightarrow> string option \<Rightarrow>
       nat option \<Rightarrow> response \<times> store" where
  "mint_success e st eventId nftMintAddress ownerWalletAddress solanaTransactionSignature
       transactionId =
     (if falsy eventId \<or> falsy nftMintAddress \<or> falsy ownerWalletAddress
           \<or> falsy solanaTransactionSignature then
        (Response 400 (ErrorJson ''Missing required fields for mint success notification.''), st)
      else
        case select_single (select_ticket_fails e)
               (\<lambda>t. nft_mint_address t = val nftMintAddress) (tickets st) of
          Inr existingTicket \<Rightarrow> (Response 200 (MessageJson ''Ticket already processed.''), st)
        | Inl checkError \<Rightarrow>
            (case generateQrCodeDataUrl e (val nftMintAddress) of
               None \<Rightarrow>
                 (Response 500 (ErrorJson ''Internal server error processing mint success.''), st)
             | Some qrCodeUrl \<Rightarrow>
                 (case select_single (select_event_fails e)
                         (\<lambda>r. event_id r = val eventId) (events st) of
                    Inl eventError \<Rightarrow>
                      (Response 404 (ErrorJson ''Event not found for ticket processing.''), st)
                  | Inr ev \<Rightarrow>
                      (case insert_ticket (insert_ticket_fails e) st
                              (new_ticket_row e (val eventId) (val nftMintAddress)
                                 (val ownerWalletAddress) (seat_label ev) qrCodeUrl) of
                         Inl insertError \<Rightarrow>
                           (Response 500 (ErrorJson ''Failed to record new ticket.''), st)
                       | Inr (newTicket, st1) \<Rightarrow>
                           (Response 200
                              (MessageTicket ''Ticket successfully recorded and event updated.''
                                 newTicket),
                            settle_transaction e transactionId (val solanaTransactionSignature)
                              newTicket
                              (decrement_available e (val eventId) ev st1))))))"

subsection \<open>POST /api/tickets/transfer-update\<close>

definition mark_transferred :: "env \<Rightarrow> string \<Rightarrow> ticket \<Rightarrow> ticket" where
  "mark_transferred e newOwnerWalletAddress t =
     t\<lparr>owner_wallet_address := newOwnerWalletAddress,
       status := ''transferred'',
       last_transfer_date := Some (now e)\<rparr>"

definition transfer_update ::
    "env \<Rightarrow> store \<Rightarrow> string option \<Rightarrow> string option \<Rightarrow> string option \<Rightarrow> response \<times> store" where
  "transfer_update e st nftMintAddress newOwnerWalletAddress solanaTransactionSignature =
     (if falsy nftMintAddress \<or> falsy newOwnerWalletAddress \<or> falsy solanaTransactionSignature
      then
        (Response 400 (ErrorJson ''Missing required fields for transfer update notification.''),
         st)
      else
        case select_single (select_ticket_fails e)
               (\<lambda>t. nft_mint_address t = val nftMintAddress) (tickets st) of
          Inl PGRST116 \<Rightarrow> (Response 404 (ErrorJson ''Ticket not found in our records.''), st)
        | Inl DbFailure \<Rightarrow>
            (Response 500 (ErrorJson ''Failed to retrieve ticket details for transfer.''), st)
        | Inr ticket \<Rightarrow>
            if owner_wallet_address ticket = val newOwnerWalletAddress then
              (Response 200 (MessageJson ''Ticket owner already up-to-date.''), st)
            else if update_ticket_fails e then
              (Response 500 (ErrorJson ''Failed to update ticket owner.''), st)
            else
              (Response 200
                 (MessageTicketId ''Ticket owner updated successfully.'' (ticket_id ticket)),
               st\<lparr>tickets :=
                    update_where (\<lambda>t. ticket_id t = ticket_id ticket)
                      (mark_transferred e (val newOwnerWalletAddress)) (tickets st)\<rparr>))"

subsection \<open>POST /api/events/:eventId/purchase-initiate\<close>

definition pending_transaction :: "string \<Rightarrow> string \<Rightarrow> rat \<Rightarrow> transaction" where
  "pending_transaction eventId paymentMethod amt =
     \<lparr>transaction_id = 0,
      txn_event_id = eventId,
      payment_method = paymentMethod,
      amount = amt,
      currency = ''SOL'',
      txn_status = ''pending'',
      solana_transaction_signature = None,
      txn_ticket_id = None\<rparr>"

definition purchase_initiate ::
    "env \<Rightarrow> store \<Rightarrow> string \<Rightarrow> string option \<Rightarrow> string option \<Rightarrow> rat option \<Rightarrow>
       response \<times> store" where
  "purchase_initiate e st eventId userWalletAddress paymentMethodField quantityField =
     (let paymentMethod = (case paymentMethodField of None \<Rightarrow> ''SOL'' | Some m \<Rightarrow> m);
          quantity = (case quantityField of None \<Rightarrow> 1 | Some q \<Rightarrow> q)
      in if falsy userWalletAddress then
           (Response 400 (ErrorJson ''User wallet address is required.''), st)
         else if quantity \<le> 0 then
           (Response 400 (ErrorJson ''Quantity must be at least 1.''), st)
         else
           case select_single (select_event_fails e) (\<lambda>r. event_id r = eventId) (events st) of
             Inl PGRST116 \<Rightarrow> (Response 404 (ErrorJson ''Event not found.''), st)
           | Inl DbFailure \<Rightarrow>
               (Response 500 (ErrorJson ''Failed to retrieve event details.''), st)
           | Inr ev \<Rightarrow>
               if candy_machine_id ev = [] then
                 (Response 500 (ErrorJson ''Candy Machine not configured for this event.''), st)
               else if of_int (available_tickets ev) < quantity then
                 (Response 400
                    (ErrorJson (''Not enough tickets available. Only ''
                       @ show_int (available_tickets ev) @ '' left.'')), st)
               else
                 (case insert_transaction (insert_transaction_fails e) st
                         (pending_transaction eventId paymentMethod (price_sol ev * quantity)) of
                    Inl transactionError \<Rightarrow>
                      (Response 500 (ErrorJson ''Failed to create pending transaction.''), st)
                  | Inr (txn, st1) \<Rightarrow>
                      (Response 200
                         (PurchaseInitiated
                            ''Purchase initiated. Please complete the minting process from your wallet.''
                            (candy_machine_id ev) (price_sol ev) quantity (transaction_id txn)),
                       st1)))"

section \<open>Lookups, key constraints and runs of calls\<close>

text \<open>
  The row of an asset and the row of an event, as the first match in the table. The key
  constraints of the store: asset identifiers and ticket identifiers are unique among the
  tickets, ticket identifiers come from the sequence, and event identifiers are unique
  among the events.
\<close>

definition ticket_for :: "store \<Rightarrow> string \<Rightarrow> ticket option" where
  "ticket_for st a = find (\<lambda>t. nft_mint_address t = a) (tickets st)"

definition event_for :: "store \<Rightarrow> string \<Rightarrow> event option" where
  "event_for st i = find (\<lambda>r. event_id r = i) (events st)"

definition wf_store :: "store \<Rightarrow> bool" where
  "wf_store st \<longleftrightarrow>
     distinct (map nft_mint_address (tickets st)) \<and>
     distinct (map ticket_id (tickets st)) \<and>
     list_all (\<lambda>t. ticket_id t < next_ticket_id st) (tickets st) \<and>
     distinct (map event_id (events st))"

text \<open>
  A request to one of the three ticket routes, with the behaviour of the collaborators
  while it is served. \<open>run\<close> serves a list of requests one after the other, each on the store
  the one before left. \<open>counter_update_ok\<close> says that the update of \<open>available_tickets\<close> goes
  through while a mint-success request is served. \<open>sold\<close> counts the Ticket rows recorded
  for an event.
\<close>

datatype request =
    MintSuccess env "string option" "string option" "string option" "string option" "nat option"
  | TransferUpdate env "string option" "string option" "string option"
  | Verify env "string option" "string option"

fun handle :: "store \<Rightarrow> request \<Rightarrow> response \<times> store" where
  "handle st (MintSuccess e eventId nftMintAddress ownerWalletAddress sg transactionId) =
     mint_success e st eventId nftMintAddress ownerWalletAddress sg transactionId"
| "handle st (TransferUpdate e nftMintAddress newOwnerWalletAddress sg) =
     transfer_update e st nftMintAddress newOwnerWalletAddress sg"
| "handle st (Verify e nftMintAddress ownerWalletAddress) =
     verify e st nftMintAddress ownerWalletAddress"

definition run :: "store \<Rightarrow> request list \<Rightarrow> store" where
  "run st rs = foldl (\<lambda>s r. snd (handle s r)) st rs"

fun is_mint :: "request \<Rightarrow> bool" where
  "is_mint (MintSuccess e eventId nftMintAddress ownerWalletAddress sg transactionId) = True"
| "is_mint (TransferUpdate e nftMintAddress newOwnerWalletAddress sg) = False"
| "is_mint (Verify e nftMintAddress ownerWalletAddress) = False"

fun counter_update_ok :: "request \<Rightarrow> bool" where
  "counter_update_ok (MintSuccess e eventId nftMintAddress ownerWalletAddress sg transactionId) =
     (\<not> update_event_fails e)"
| "counter_update_ok (TransferUpdate e nftMintAddress newOwnerWalletAddress sg) = True"
| "counter_update_ok (Verify e nftMintAddress ownerWalletAddress) = True"

definition sold :: "store \<Rightarrow> string \<Rightarrow> int" where
  "sold st i = int (length (filter (\<lambda>t. ticket_event_id t = i) (tickets st)))"

section \<open>Concrete stores and collaborators\<close>

text \<open>
  An event with three tickets, all available, in an otherwise empty store; the stores
  after asset A and then asset B are minted for it; the store in which asset A's ticket
  is used; an event with a single ticket; collaborators that all answer, and the same
  with the ledger down.
\<close>


definition env0 :: env where
  "env0 = \<lparr>now = ''2025-06-01T12:00:00.000Z'',
            is_pubkey = (\<lambda>s. s \<noteq> []),
            findNftByMint = (\<lambda>m. if m = ''assetA'' then OwnedBy ''walletX'' else NoAsset),
            generateQrCodeDataUrl = (\<lambda>d. Some (''data:image/png;base64,'' @ d)),
            select_ticket_fails = False,
            update_ticket_fails = False,
            select_event_fails = False,
            insert_ticket_fails = False,
            update_event_fails = False,
            insert_transaction_fails = False,
            update_transaction_fails = False\<rparr>"

definition event1 :: event where
  "event1 = \<lparr>event_id = ''event1'', name = ''Launch'', total_tickets = 3,
              available_tickets = 3, price_sol = 1 / 2, candy_machine_id = ''machine1''\<rparr>"

definition store0 :: store where
  "store0 = \<lparr>tickets = [], events = [event1], transactions = [],
              next_ticket_id = 1, next_transaction_id = 1\<rparr>"

definition ticketA :: ticket where
  "ticketA = \<lparr>ticket_id = 1,
      ticket_event_id = ''event1'',
      nft_mint_address = ''assetA'',
      owner_wallet_address = ''walletX'',
      seat_info = ''Ticket #1'',
      status = ''purchased'',
      is_used = False,
      original_purchase_date = ''2025-06-01T12:00:00.000Z'',
      original_purchaser_wallet_address = ''walletX'',
      qr_code_data = ''assetA'',
      qr_code_url = ''data:image/png;base64,assetA'',
      last_transfer_date = None,
      updated_at = None\<rparr>"

definition store1 :: store where
  "store1 = \<lparr>tickets = [ticketA],
              events = [event1\<lparr>available_tickets := 2\<rparr>],
              transactions = [],
              next_ticket_id = 2, next_transaction_id = 1\<rparr>"

definition ticketB :: ticket where
  "ticketB = \<lparr>ticket_id = 2,
      ticket_event_id = ''event1'',
      nft_mint_address = ''assetB'',
      owner_wallet_address = ''walletY'',
      seat_info = ''Ticket #2'',
      status = ''purchased'',
      is_used = False,
      original_purchase_date = ''2025-06-01T12:00:00.000Z'',
      original_purchaser_wallet_address = ''walletY'',
      qr_code_data = ''assetB'',
      qr_code_url = ''data:image/png;base64,assetB'',
      last_transfer_date = None,
      updated_at = None\<rparr>"

definition store2 :: store where
  "store2 = \<lparr>tickets = [ticketA, ticketB],
              events = [event1\<lparr>available_tickets := 1\<rparr>],
              transactions = [],
              next_ticket_id = 3, next_transaction_id = 1\<rparr>"

definition ticketA_used :: ticket where
  "ticketA_used = ticketA\<lparr>is_used := True, status := ''used'',
                          updated_at := Some ''2025-06-01T12:00:00.000Z''\<rparr>"

definition store1_used :: store where
  "store1_used = store1\<lparr>tickets := [ticketA_used]\<rparr>"

definition env_ledger_down :: env where
  "env_ledger_down = env0\<lparr>findNftByMint := (\<lambda>m. RpcError)\<rparr>"

definition event_single :: event where
  "event_single = \<lparr>event_id = ''event2'', name = ''Solo'', total_tickets = 1,
                    available_tickets = 1, price_sol = 1, candy_machine_id = ''machine2''\<rparr>"

definition store_single :: store where
  "store_single = \<lparr>tickets = [], events = [event_single], transactions = [],
                    next_ticket_id = 1, next_transaction_id = 1\<rparr>"

definition calls0 :: "request list" where
  "calls0 = [TransferUpdate env0 (Some ''assetA'') (Some ''walletZ'') (Some ''sig3''),
             MintSuccess env0 (Some ''event1'') (Some ''assetB'') (Some ''walletY'') (Some ''sig2'') None,
             Verify env0 (Some ''assetA'') (Some ''walletZ'')]"

definition mints0 :: "request list" where
  "mints0 = [MintSuccess env0 (Some ''event1'') (Some ''assetA'') (Some ''walletX'') (Some ''sig1'') None,
             MintSuccess env0 (Some ''event1'') (Some ''assetA'') (Some ''walletX'') (Some ''sig1'') None,
             MintSuccess env0 (Some ''event1'') (Some ''assetB'') (Some ''walletY'') (Some ''sig2'') None]"

definition mints_single :: "request list" where
  "mints_single =
     [MintSuccess env0 (Some ''event2'') (Some ''assetA'') (Some ''walletX'') (Some ''sig1'') None,
      MintSuccess env0 (Some ''event2'') (Some ''assetB'') (Some ''walletY'') (Some ''sig2'') None]"

definition txn_half :: transaction where
  "txn_half = \<lparr>transaction_id = 1,
      txn_event_id = ''event1'',
      payment_method = ''SOL'',
      amount = 1 / 4,
      currency = ''SOL'',
      txn_status = ''pending'',
      solana_transaction_signature = None,
      txn_ticket_id = None\<rparr>"

section \<open>Facts about the store queries and the handlers\<close>

subsection \<open>Single-row queries on a table with unique keys\<close>

lemma filter_key_none: "a \<notin> k ` set xs \<Longrightarrow> filter (\<lambda>x. k x = a) xs = []"
  by (induction xs) auto

lemma filter_distinct_key:
  "distinct (map k xs) \<Longrightarrow>
     filter (\<lambda>x. k x = a) xs = (case find (\<lambda>x. k x = a) xs of None \<Rightarrow> [] | Some r \<Rightarrow> [r])"
  by (induction xs) (auto simp: filter_key_none)

lemma select_single_distinct:
  "distinct (map k xs) \<Longrightarrow>
     select_single False (\<lambda>x. k x = a) xs
       = (case find (\<lambda>x. k x = a) xs of None \<Rightarrow> Inl PGRST116 | Some r \<Rightarrow> Inr r)"
  by (simp add: select_single_def filter_distinct_key split: option.splits)

lemma select_single_Inr_find:
  "select_single b (\<lambda>x. k x = a) xs = Inr r \<Longrightarrow> find (\<lambda>x. k x = a) xs = Some r"
  by (induction xs) (auto simp: select_single_def split: if_splits list.splits)

lemma find_key: "find (\<lambda>x. k x = a) xs = Some r \<Longrightarrow> k r = a \<and> r \<in> set xs"
  by (induction xs) (auto split: if_splits)

lemma find_none_key: "find (\<lambda>x. k x = a) xs = None \<longleftrightarrow> a \<notin> k ` set xs"
  by (induction xs) auto

lemma map_key_update_where:
  "(\<And>r. k (f r) = k r) \<Longrightarrow> map k (update_where p f xs) = map k xs"
  by (simp add: update_where_def)

lemma find_update_where:
  "(\<And>r. k (f r) = k r) \<Longrightarrow>
     find (\<lambda>x. k x = a) (update_where p f xs)
       = map_option (\<lambda>r. if p r then f r else r) (find (\<lambda>x. k x = a) xs)"
  by (induction xs) (auto simp: update_where_def)

lemma find_snoc:
  "find p (xs @ [y]) = (case find p xs of Some x \<Rightarrow> Some x | None \<Rightarrow> if p y then Some y else None)"
  by (induction xs) auto


lemma wf_select_ticket:
  "wf_store st \<Longrightarrow>
     select_single False (\<lambda>t. nft_mint_address t = a) (tickets st)
       = (case ticket_for st a of None \<Rightarrow> Inl PGRST116 | Some r \<Rightarrow> Inr r)"
  by (simp add: wf_store_def ticket_for_def select_single_distinct)

lemma ticket_for_update_where:
  "(\<And>r. nft_mint_address (f r) = nft_mint_address r) \<Longrightarrow>
     ticket_for (st\<lparr>tickets := update_where p f (tickets st)\<rparr>) a
       = map_option (\<lambda>r. if p r then f r else r) (ticket_for st a)"
  by (simp add: ticket_for_def find_update_where)

lemma mark_used_key [simp]: "nft_mint_address (mark_used e t) = nft_mint_address t"
  by (simp add: mark_used_def)

subsection \<open>The key constraints are kept\<close>

lemma wf_tickets_update:
  assumes "wf_store st"
    and "\<And>r. nft_mint_address (f r) = nft_mint_address r"
    and "\<And>r. ticket_id (f r) = ticket_id r"
  shows "wf_store (st\<lparr>tickets := update_where p f (tickets st)\<rparr>)"
proof -
  have "map nft_mint_address (update_where p f (tickets st)) = map nft_mint_address (tickets st)"
    using assms(2) by (simp add: update_where_def)
  moreover have "map ticket_id (update_where p f (tickets st)) = map ticket_id (tickets st)"
    using assms(3) by (simp add: update_where_def)
  moreover have "list_all (\<lambda>t. ticket_id t < next_ticket_id st) (update_where p f (tickets st))"
    using assms(1,3) by (auto simp: wf_store_def update_where_def list_all_iff)
  ultimately show ?thesis using assms(1) by (simp add: wf_store_def)
qed

lemma wf_events_update:
  assumes "wf_store st" and "\<And>r. event_id (f r) = event_id r"
  shows "wf_store (st\<lparr>events := update_where p f (events st)\<rparr>)"
proof -
  have "map event_id (update_where p f (events st)) = map event_id (events st)"
    using assms(2) by (simp add: update_where_def)
  then show ?thesis using assms(1) by (simp add: wf_store_def)
qed

lemma wf_transactions_update [simp]:
  "wf_store (st\<lparr>transactions := xs\<rparr>) = wf_store st"
  by (simp add: wf_store_def)

lemma wf_next_transaction_update [simp]:
  "wf_store (st\<lparr>next_transaction_id := n\<rparr>) = wf_store st"
  by (simp add: wf_store_def)

lemma wf_insert_ticket:
  assumes "wf_store st" and "insert_ticket b st row = Inr (t, st1)"
  shows "wf_store st1"
proof -
  from assms(2) have fresh: "nft_mint_address row \<notin> set (map nft_mint_address (tickets st))"
    and t: "t = row\<lparr>ticket_id := next_ticket_id st\<rparr>"
    and st1: "st1 = st\<lparr>tickets := tickets st @ [t], next_ticket_id := Suc (next_ticket_id st)\<rparr>"
    by (auto simp: insert_ticket_def Let_def split: if_splits)
  have lt: "\<forall>x\<in>set (tickets st). ticket_id x < next_ticket_id st"
    using assms(1) by (simp add: wf_store_def list_all_iff)
  then have "next_ticket_id st \<notin> ticket_id ` set (tickets st)" by auto
  then show ?thesis
    using assms(1) fresh lt by (auto simp: wf_store_def st1 t list_all_iff less_Suc_eq)
qed

lemma wf_decrement_available: "wf_store st \<Longrightarrow> wf_store (decrement_available e i ev st)"
  by (simp add: decrement_available_def wf_events_update)

lemma wf_settle_transaction: "wf_store st \<Longrightarrow> wf_store (settle_transaction e tid sg t st)"
  by (simp add: settle_transaction_def split: option.splits)

lemma select_ticket_Inr:
  "select_single b (\<lambda>t. nft_mint_address t = a) (tickets st) = Inr t \<Longrightarrow> ticket_for st a = Some t"
  by (simp add: ticket_for_def select_single_Inr_find)

lemma mint_success_cases:
  assumes "mint_success e st eventId nft owner sg tid = (r, st')"
  shows "(st' = st \<and> code r \<noteq> 200) \<or>
     (st' = st \<and> r = Response 200 (MessageJson ''Ticket already processed.'') \<and>
        (\<exists>t. ticket_for st (val nft) = Some t)) \<or>
     (\<exists>ev qr newTicket st1.
        select_single (select_event_fails e) (\<lambda>r. event_id r = val eventId) (events st) = Inr ev \<and>
        insert_ticket (insert_ticket_fails e) st
          (new_ticket_row e (val eventId) (val nft) (val owner) (seat_label ev) qr)
            = Inr (newTicket, st1) \<and>
        r = Response 200 (MessageTicket ''Ticket successfully recorded and event updated.'' newTicket) \<and>
        st' = settle_transaction e tid (val sg) newTicket
                (decrement_available e (val eventId) ev st1))"
  using assms
  by (auto simp: mint_success_def dest: select_ticket_Inr
        split: if_splits sum.splits option.splits)

lemma wf_mint_success: "wf_store st \<Longrightarrow> wf_store (snd (mint_success e st eventId nft owner sg tid))"
  using mint_success_cases [of e st eventId nft owner sg tid
      "fst (mint_success e st eventId nft owner sg tid)"
      "snd (mint_success e st eventId nft owner sg tid)"]
  by (auto intro!: wf_settle_transaction wf_decrement_available elim: wf_insert_ticket)

lemma wf_verify: "wf_store st \<Longrightarrow> wf_store (snd (verify e st nft owner))"
  by (auto simp: verify_def Let_def mark_used_def intro!: wf_tickets_update
        split: sum.splits db_error.splits)

lemma wf_transfer_update: "wf_store st \<Longrightarrow> wf_store (snd (transfer_update e st nft owner sg))"
  by (auto simp: transfer_update_def Let_def mark_transferred_def intro!: wf_tickets_update
        split: sum.splits db_error.splits)

lemma wf_purchase_initiate:
  "wf_store st \<Longrightarrow> wf_store (snd (purchase_initiate e st i w pm q))"
  by (auto simp: purchase_initiate_def Let_def insert_transaction_def
        split: sum.splits db_error.splits)

subsection \<open>What a mint-success call changes\<close>

lemma event_for_tickets_update [simp]: "event_for (st\<lparr>tickets := xs\<rparr>) i = event_for st i"
  by (simp add: event_for_def)

lemma event_for_transactions_update [simp]:
  "event_for (st\<lparr>transactions := xs\<rparr>) i = event_for st i"
  by (simp add: event_for_def)

lemma event_for_next_ticket_update [simp]:
  "event_for (st\<lparr>next_ticket_id := n\<rparr>) i = event_for st i"
  by (simp add: event_for_def)

lemma ticket_for_events_update [simp]: "ticket_for (st\<lparr>events := xs\<rparr>) a = ticket_for st a"
  by (simp add: ticket_for_def)

lemma ticket_for_transactions_update [simp]:
  "ticket_for (st\<lparr>transactions := xs\<rparr>) a = ticket_for st a"
  by (simp add: ticket_for_def)

lemma ticket_for_next_update [simp]:
  "ticket_for (st\<lparr>next_ticket_id := n\<rparr>) a = ticket_for st a"
  "ticket_for (st\<lparr>next_transaction_id := m\<rparr>) a = ticket_for st a"
  by (simp_all add: ticket_for_def)

lemma tickets_settle [simp]: "tickets (settle_transaction e tid sg t st) = tickets st"
  by (simp add: settle_transaction_def split: option.splits)

lemma events_settle [simp]: "events (settle_transaction e tid sg t st) = events st"
  by (simp add: settle_transaction_def split: option.splits)

lemma tickets_decrement [simp]: "tickets (decrement_available e i ev st) = tickets st"
  by (simp add: decrement_available_def)

lemma ticket_for_cong: "tickets st' = tickets st \<Longrightarrow> ticket_for st' a = ticket_for st a"
  by (simp add: ticket_for_def)

lemma event_for_cong: "events st' = events st \<Longrightarrow> event_for st' i = event_for st i"
  by (simp add: event_for_def)

lemma insert_ticket_Inr:
  assumes "insert_ticket b st row = Inr (t, st1)"
  shows "t = row\<lparr>ticket_id := next_ticket_id st\<rparr>"
    and "tickets st1 = tickets st @ [t]"
    and "events st1 = events st"
    and "transactions st1 = transactions st"
    and "nft_mint_address row \<notin> nft_mint_address ` set (tickets st)"
  using assms by (auto simp: insert_ticket_def Let_def split: if_splits)

lemma event_for_decrement:
  assumes "event_for st i = Some ev"
  shows "event_for (decrement_available e i ev st) i
           = Some (if update_event_fails e then ev
                   else ev\<lparr>available_tickets := available_tickets ev - 1\<rparr>)"
proof -
  have "event_id ev = i" using assms by (auto simp: event_for_def dest: find_key)
  then show ?thesis
    using assms by (simp add: decrement_available_def event_for_def find_update_where)
qed

lemma event_for_decrement_other:
  assumes "j \<noteq> i"
  shows "event_for (decrement_available e i ev st) j = event_for st j"
proof (cases "event_for st j")
  case None
  then show ?thesis by (simp add: decrement_available_def event_for_def find_update_where)
next
  case (Some r)
  then have "event_id r = j" by (auto simp: event_for_def dest: find_key)
  with Some assms show ?thesis
    by (simp add: decrement_available_def event_for_def find_update_where)
qed

lemma select_event_Inr:
  "select_single b (\<lambda>r. event_id r = i) (events st) = Inr ev \<Longrightarrow> event_for st i = Some ev"
  by (simp add: event_for_def select_single_Inr_find)

lemma mint_success_existing:
  assumes "wf_store st" and "ticket_for st a = Some t"
    and "\<not> falsy eventId" "a \<noteq> []" "\<not> falsy owner" "\<not> falsy sg"
    and "\<not> select_ticket_fails e"
  shows "mint_success e st eventId (Some a) owner sg tid
           = (Response 200 (MessageJson ''Ticket already processed.''), st)"
  using assms by (simp add: mint_success_def wf_select_ticket falsy_def)

lemma mint_success_no_mutation:
  assumes "ticket_for st a = Some t"
  shows "snd (mint_success e st eventId (Some a) owner sg tid) = st"
proof -
  have "a \<in> nft_mint_address ` set (tickets st)"
    using assms by (auto simp: ticket_for_def dest: find_key)
  then have "insert_ticket b st (new_ticket_row e' i a w l q) = Inl DbFailure" for b e' i w l q
    by (simp add: insert_ticket_def new_ticket_row_def)
  then show ?thesis
    by (auto simp: mint_success_def split: sum.splits option.splits)
qed


lemma mint_success_new:
  assumes "ticket_for st a = None"
    and "code (fst (mint_success e st eventId (Some a) owner sg tid)) = 200"
  shows "\<exists>ev qr newTicket st1.
        event_for st (val eventId) = Some ev \<and>
        insert_ticket (insert_ticket_fails e) st
          (new_ticket_row e (val eventId) a (val owner) (seat_label ev) qr)
            = Inr (newTicket, st1) \<and>
        fst (mint_success e st eventId (Some a) owner sg tid)
          = Response 200 (MessageTicket ''Ticket successfully recorded and event updated.'' newTicket) \<and>
        snd (mint_success e st eventId (Some a) owner sg tid)
          = settle_transaction e tid (val sg) newTicket
                (decrement_available e (val eventId) ev st1)"
  using mint_success_cases [of e st eventId "Some a" owner sg tid
      "fst (mint_success e st eventId (Some a) owner sg tid)"
      "snd (mint_success e st eventId (Some a) owner sg tid)"] assms
  by (auto dest: select_event_Inr)

subsection \<open>Evaluation on the concrete stores\<close>

lemmas concrete_defs =
  env0_def event1_def store0_def ticketA_def store1_def
  mint_success_def verify_def transfer_update_def purchase_initiate_def
  select_single_def update_where_def insert_ticket_def insert_transaction_def
  new_ticket_row_def seat_label_def decrement_available_def settle_transaction_def
  mark_used_def mark_transferred_def pending_transaction_def
  verifyTicketOwnershipOnChain_def falsy_def Let_def
  show_int_def show_nat.simps digit_def
  ticket_for_def event_for_def wf_store_def

lemma first_mint:
  "mint_success env0 store0 (Some ''event1'') (Some ''assetA'') (Some ''walletX'') (Some ''sig1'') None
     = (Response 200 (MessageTicket ''Ticket successfully recorded and event updated.'' ticketA),
        store1)"
  by (simp add: concrete_defs)

lemma wf_store1: "wf_store store1"
  by (simp add: concrete_defs)

subsection \<open>What transfer-update and verify calls change\<close>

lemma mark_transferred_key [simp]:
  "nft_mint_address (mark_transferred e n t) = nft_mint_address t"
  by (simp add: mark_transferred_def)

lemma transfer_update_cases:
  assumes "transfer_update e st nft newOwner sg = (r, st')"
  shows "st' = st \<or>
     (\<exists>t. ticket_for st (val nft) = Some t \<and>
        st' = st\<lparr>tickets := update_where (\<lambda>x. ticket_id x = ticket_id t)
                              (mark_transferred e (val newOwner)) (tickets st)\<rparr>)"
  using assms
  by (auto simp: transfer_update_def dest: select_ticket_Inr
        split: if_splits sum.splits db_error.splits)

lemma verify_cases:
  assumes "verify e st nft owner = (r, st')"
  shows "st' = st \<or>
     (\<exists>t. ticket_for st (val nft) = Some t \<and>
        st' = st\<lparr>tickets := update_where (\<lambda>x. ticket_id x = ticket_id t)
                              (mark_used e) (tickets st)\<rparr>)"
  using assms
  by (auto simp: verify_def Let_def dest: select_ticket_Inr
        split: if_splits sum.splits db_error.splits)

lemma transfer_update_frame_rows:
  "list_all2 (\<lambda>r r'. r' = r \<or>
        r' = r\<lparr>owner_wallet_address := val newOwner, status := ''transferred'',
               last_transfer_date := Some (now e)\<rparr>)
     (tickets st) (tickets (snd (transfer_update e st nft newOwner sg)))"
proof -
  obtain r st' where rs: "transfer_update e st nft newOwner sg = (r, st')"
    by (cases "transfer_update e st nft newOwner sg")
  from transfer_update_cases [OF rs]
  have "list_all2 (\<lambda>r r'. r' = r \<or> r' = mark_transferred e (val newOwner) r)
          (tickets st) (tickets st')"
    by (auto simp: update_where_def list_all2_map2 intro!: list.rel_refl)
  then show ?thesis by (simp add: rs mark_transferred_def)
qed

lemma transfer_update_frame_rest:
  "events (snd (transfer_update e st nft newOwner sg)) = events st \<and>
   transactions (snd (transfer_update e st nft newOwner sg)) = transactions st \<and>
   next_ticket_id (snd (transfer_update e st nft newOwner sg)) = next_ticket_id st \<and>
   next_transaction_id (snd (transfer_update e st nft newOwner sg)) = next_transaction_id st"
  using transfer_update_cases [of e st nft newOwner sg
      "fst (transfer_update e st nft newOwner sg)" "snd (transfer_update e st nft newOwner sg)"]
  by auto

lemma verify_used:
  assumes "wf_store st" "a \<noteq> []" "\<not> select_ticket_fails e"
    and "ticket_for st a = Some t" "is_used t"
  shows "verify e st (Some a) asserted = (Response 409 (ErrorJson ''Ticket has already been used.''), st)"
  using assms by (simp add: verify_def wf_select_ticket falsy_def)

subsection \<open>Runs of calls\<close>

lemma run_Nil [simp]: "run st [] = st"
  by (simp add: run_def)

lemma run_Cons [simp]: "run st (r # rs) = run (snd (handle st r)) rs"
  by (simp add: run_def)

lemma run_snoc: "run st (rs @ [r]) = snd (handle (run st rs) r)"
  by (simp add: run_def)

lemma wf_handle: "wf_store st \<Longrightarrow> wf_store (snd (handle st r))"
  by (cases r) (simp_all add: wf_mint_success wf_transfer_update wf_verify)

lemma wf_run: "wf_store st \<Longrightarrow> wf_store (run st rs)"
  by (induction rs arbitrary: st) (simp_all add: wf_handle)

lemma mint_success_used:
  assumes "ticket_for st a = Some t"
  shows "ticket_for (snd (mint_success e st eventId nft owner sg tid)) a = Some t"
proof -
  obtain r st' where rs: "mint_success e st eventId nft owner sg tid = (r, st')"
    by (cases "mint_success e st eventId nft owner sg tid")
  from mint_success_cases [OF rs] have "ticket_for st' a = Some t"
  proof (elim disjE exE conjE)
    fix ev qr newTicket st1
    assume ins: "insert_ticket (insert_ticket_fails e) st
          (new_ticket_row e (val eventId) (val nft) (val owner) (seat_label ev) qr)
            = Inr (newTicket, st1)"
      and st': "st' = settle_transaction e tid (val sg) newTicket
                (decrement_available e (val eventId) ev st1)"
    have "tickets st' = tickets st @ [newTicket]"
      using insert_ticket_Inr(2) [OF ins] by (simp add: st')
    then show ?thesis using assms by (simp add: ticket_for_def find_snoc)
  qed (use assms in simp_all)
  then show ?thesis by (simp add: rs)
qed

lemma transfer_update_used:
  assumes "ticket_for st a = Some t" "is_used t"
  shows "\<exists>t'. ticket_for (snd (transfer_update e st nft owner sg)) a = Some t' \<and> is_used t' \<and>
           ticket_id t' = ticket_id t"
  using transfer_update_cases [of e st nft owner sg "fst (transfer_update e st nft owner sg)"
      "snd (transfer_update e st nft owner sg)"] assms
  by (auto simp: ticket_for_update_where mark_transferred_def)

lemma verify_used_kept:
  assumes "ticket_for st a = Some t" "is_used t"
  shows "\<exists>t'. ticket_for (snd (verify e st nft owner)) a = Some t' \<and> is_used t' \<and>
           ticket_id t' = ticket_id t"
  using verify_cases [of e st nft owner "fst (verify e st nft owner)" "snd (verify e st nft owner)"]
    assms
  by (auto simp: ticket_for_update_where mark_used_def)

lemma handle_used:
  assumes "ticket_for st a = Some t" "is_used t"
  shows "\<exists>t'. ticket_for (snd (handle st r)) a = Some t' \<and> is_used t' \<and> ticket_id t' = ticket_id t"
  using assms
  by (cases r) (simp_all add: mint_success_used transfer_update_used verify_used_kept)

lemma run_used:
  assumes "ticket_for st a = Some t" "is_used t"
  shows "\<exists>t'. ticket_for (run st rs) a = Some t' \<and> is_used t' \<and> ticket_id t' = ticket_id t"
  using assms
proof (induction rs arbitrary: st t)
  case Nil
  then show ?case by simp
next
  case (Cons r rs)
  from handle_used [OF Cons.prems, of r] obtain t1 where
    t1: "ticket_for (snd (handle st r)) a = Some t1" "is_used t1" "ticket_id t1 = ticket_id t"
    by blast
  from Cons.IH [OF t1(1,2)] t1(3) show ?case by simp
qed

lemma verify_ok_used:
  assumes "code (fst (verify e st (Some a) asserted)) = 200"
  shows "a \<noteq> [] \<and> (\<exists>t. ticket_for (snd (verify e st (Some a) asserted)) a = Some t \<and> is_used t)"
  using assms
  by (auto simp: verify_def Let_def falsy_def ticket_for_update_where mark_used_def
        dest!: select_ticket_Inr split: if_splits sum.splits db_error.splits)

subsection \<open>The availability counter along mint-success calls\<close>

lemma sold_snoc:
  "tickets st' = tickets st @ [t] \<Longrightarrow>
     sold st' i = sold st i + (if ticket_event_id t = i then 1 else 0)"
  by (simp add: sold_def)

lemma mint_success_counter:
  assumes ev: "event_for st i = Some ev"
  shows "\<exists>ev'. event_for (snd (mint_success e st eventId nft owner sg tid)) i = Some ev' \<and>
           total_tickets ev' = total_tickets ev \<and>
           available_tickets ev' \<le> available_tickets ev \<and>
           available_tickets ev - available_tickets ev'
             \<le> sold (snd (mint_success e st eventId nft owner sg tid)) i - sold st i"
proof -
  obtain r st' where rs: "mint_success e st eventId nft owner sg tid = (r, st')"
    by (cases "mint_success e st eventId nft owner sg tid")
  from mint_success_cases [OF rs]
  have "\<exists>ev'. event_for st' i = Some ev' \<and> total_tickets ev' = total_tickets ev \<and>
           available_tickets ev' \<le> available_tickets ev \<and>
           available_tickets ev - available_tickets ev' \<le> sold st' i - sold st i"
  proof (elim disjE exE conjE)
    fix ev0 qr newTicket st1
    assume sel: "select_single (select_event_fails e) (\<lambda>r. event_id r = val eventId) (events st)
          = Inr ev0"
      and ins: "insert_ticket (insert_ticket_fails e) st
          (new_ticket_row e (val eventId) (val nft) (val owner) (seat_label ev0) qr)
            = Inr (newTicket, st1)"
      and st': "st' = settle_transaction e tid (val sg) newTicket
                (decrement_available e (val eventId) ev0 st1)"
    note i = insert_ticket_Inr [OF ins]
    have tev: "ticket_event_id newTicket = val eventId" using i(1) by (simp add: new_ticket_row_def)
    have "tickets st' = tickets st @ [newTicket]" using i(2) by (simp add: st')
    then have sold': "sold st' i = sold st i + (if val eventId = i then 1 else 0)"
      using tev by (simp add: sold_snoc)
    have ev1: "event_for st1 i = Some ev" using ev i(3) by (simp add: event_for_def)
    have ev': "event_for st' i = event_for (decrement_available e (val eventId) ev0 st1) i"
      by (simp add: st' event_for_def)
    show ?thesis
    proof (cases "val eventId = i")
      case True
      with sel ev have "ev0 = ev" by (auto dest: select_event_Inr)
      with True ev1 have "event_for st' i
          = Some (if update_event_fails e then ev
                  else ev\<lparr>available_tickets := available_tickets ev - 1\<rparr>)"
        using event_for_decrement [of st1 i ev e] by (simp add: ev')
      with sold' True show ?thesis by auto
    next
      case False
      then have "event_for st' i = Some ev"
        using event_for_decrement_other [of i "val eventId" e ev0 st1] ev1 by (simp add: ev')
      with sold' False show ?thesis by simp
    qed
  qed (use ev in simp_all)
  then show ?thesis by (simp add: rs)
qed

lemma run_mints_counter:
  assumes "event_for st i = Some ev" "list_all is_mint rs"
  shows "\<exists>ev'. event_for (run st rs) i = Some ev' \<and>
           total_tickets ev' = total_tickets ev \<and>
           available_tickets ev' \<le> available_tickets ev \<and>
           available_tickets ev - available_tickets ev' \<le> sold (run st rs) i - sold st i"
  using assms
proof (induction rs arbitrary: st ev)
  case Nil
  then show ?case by simp
next
  case (Cons r rs)
  from Cons.prems(2) obtain e eventId nft owner sg tid where
    r: "r = MintSuccess e eventId nft owner sg tid"
    by (cases r) simp_all
  let ?s = "snd (handle st r)"
  from mint_success_counter [OF Cons.prems(1), of e eventId nft owner sg tid] obtain ev1 where
    ev1: "event_for ?s i = Some ev1" "total_tickets ev1 = total_tickets ev"
      "available_tickets ev1 \<le> available_tickets ev"
      "available_tickets ev - available_tickets ev1 \<le> sold ?s i - sold st i"
    by (auto simp: r)
  from Cons.prems(2) have "list_all is_mint rs" by simp
  from Cons.IH [OF ev1(1) this] obtain ev' where
    ev': "event_for (run ?s rs) i = Some ev'" "total_tickets ev' = total_tickets ev1"
      "available_tickets ev' \<le> available_tickets ev1"
      "available_tickets ev1 - available_tickets ev' \<le> sold (run ?s rs) i - sold ?s i"
    by blast
  show ?case using ev1 ev' by auto
qed

lemma mint_success_counter_exact:
  assumes ev: "event_for st i = Some ev" and ok: "\<not> update_event_fails e"
  shows "\<exists>ev'. event_for (snd (mint_success e st eventId nft owner sg tid)) i = Some ev' \<and>
           total_tickets ev' = total_tickets ev \<and>
           available_tickets ev - available_tickets ev'
             = sold (snd (mint_success e st eventId nft owner sg tid)) i - sold st i"
proof -
  obtain r st' where rs: "mint_success e st eventId nft owner sg tid = (r, st')"
    by (cases "mint_success e st eventId nft owner sg tid")
  from mint_success_cases [OF rs]
  have "\<exists>ev'. event_for st' i = Some ev' \<and> total_tickets ev' = total_tickets ev \<and>
           available_tickets ev - available_tickets ev' = sold st' i - sold st i"
  proof (elim disjE exE conjE)
    fix ev0 qr newTicket st1
    assume sel: "select_single (select_event_fails e) (\<lambda>r. event_id r = val eventId) (events st)
          = Inr ev0"
      and ins: "insert_ticket (insert_ticket_fails e) st
          (new_ticket_row e (val eventId) (val nft) (val owner) (seat_label ev0) qr)
            = Inr (newTicket, st1)"
      and st': "st' = settle_transaction e tid (val sg) newTicket
                (decrement_available e (val eventId) ev0 st1)"
    note i = insert_ticket_Inr [OF ins]
    have tev: "ticket_event_id newTicket = val eventId" using i(1) by (simp add: new_ticket_row_def)
    have "tickets st' = tickets st @ [newTicket]" using i(2) by (simp add: st')
    then have sold': "sold st' i = sold st i + (if val eventId = i then 1 else 0)"
      using tev by (simp add: sold_snoc)
    have ev1: "event_for st1 i = Some ev" using ev i(3) by (simp add: event_for_def)
    have ev': "event_for st' i = event_for (decrement_available e (val eventId) ev0 st1) i"
      by (simp add: st' event_for_def)
    show ?thesis
    proof (cases "val eventId = i")
      case True
      with sel ev have "ev0 = ev" by (auto dest: select_event_Inr)
      with True ev1 ok have "event_for st' i
          = Some (ev\<lparr>available_tickets := available_tickets ev - 1\<rparr>)"
        using event_for_decrement [of st1 i ev e] by (simp add: ev')
      with sold' True show ?thesis by auto
    next
      case False
      then have "event_for st' i = Some ev"
        using event_for_decrement_other [of i "val eventId" e ev0 st1] ev1 by (simp add: ev')
      with sold' False show ?thesis by simp
    qed
  qed (use ev in simp_all)
  then show ?thesis by (simp add: rs)
qed

lemma run_mints_counter_exact:
  assumes "event_for st i = Some ev" "list_all is_mint rs" "list_all counter_update_ok rs"
  shows "\<exists>ev'. event_for (run st rs) i = Some ev' \<and>
           total_tickets ev' = total_tickets ev \<and>
           available_tickets ev - available_tickets ev' = sold (run st rs) i - sold st i"
  using assms
proof (induction rs arbitrary: st ev)
  case Nil
  then show ?case by simp
next
  case (Cons r rs)
  from Cons.prems(2) obtain e eventId nft owner sg tid where
    r: "r = MintSuccess e eventId nft owner sg tid"
    by (cases r) simp_all
  from Cons.prems(3) have ok: "\<not> update_event_fails e" by (simp add: r)
  let ?s = "snd (handle st r)"
  from mint_success_counter_exact [OF Cons.prems(1) ok, of eventId nft owner sg tid] obtain ev1 where
    ev1: "event_for ?s i = Some ev1" "total_tickets ev1 = total_tickets ev"
      "available_tickets ev - available_tickets ev1 = sold ?s i - sold st i"
    by (auto simp: r)
  from Cons.prems(2,3) have rest: "list_all is_mint rs" "list_all counter_update_ok rs" by simp_all
  from Cons.IH [OF ev1(1) rest] obtain ev' where
    ev': "event_for (run ?s rs) i = Some ev'" "total_tickets ev' = total_tickets ev1"
      "available_tickets ev1 - available_tickets ev' = sold (run ?s rs) i - sold ?s i"
    by blast
  show ?case using ev1 ev' by auto
qed

lemma run_mints0:
  "run store0 (take 3 mints0) = store2"
  by (simp add: mints0_def concrete_defs ticketB_def store2_def)

subsection \<open>Purchases of whole quantities\<close>

lemma wf_select_event:
  "wf_store st \<Longrightarrow>
     select_single False (\<lambda>r. event_id r = i) (events st)
       = (case event_for st i of None \<Rightarrow> Inl PGRST116 | Some r \<Rightarrow> Inr r)"
  by (simp add: wf_store_def event_for_def select_single_distinct)

lemma purchase_initiate_whole_quantity:
  assumes wf: "wf_store st"
    and wallet: "\<not> falsy userWalletAddress"
    and ev: "event_for st i = Some ev" "candy_machine_id ev \<noteq> []"
    and db: "\<not> select_event_fails e" "\<not> insert_transaction_fails e"
  shows
    "(k < 1 \<longrightarrow>
        purchase_initiate e st i userWalletAddress pm (Some (of_int k))
          = (Response 400 (ErrorJson ''Quantity must be at least 1.''), st)) \<and>
     (1 \<le> k \<and> available_tickets ev < k \<longrightarrow>
        code (fst (purchase_initiate e st i userWalletAddress pm (Some (of_int k)))) = 400 \<and>
        snd (purchase_initiate e st i userWalletAddress pm (Some (of_int k))) = st) \<and>
     (1 \<le> k \<and> k \<le> available_tickets ev \<longrightarrow>
        (\<exists>txn. txn_status txn = ''pending'' \<and> amount txn = price_sol ev * of_int k \<and>
           txn_event_id txn = i \<and> transaction_id txn = next_transaction_id st \<and>
           purchase_initiate e st i userWalletAddress pm (Some (of_int k))
             = (Response 200
                  (PurchaseInitiated
                     ''Purchase initiated. Please complete the minting process from your wallet.''
                     (candy_machine_id ev) (price_sol ev) (of_int k) (transaction_id txn)),
                st\<lparr>transactions := transactions st @ [txn],
                   next_transaction_id := Suc (next_transaction_id st)\<rparr>)))"
proof -
  have sel: "select_single False (\<lambda>r. event_id r = i) (events st) = Inr ev"
    using wf ev(1) by (simp add: wf_select_event)
  have low: "purchase_initiate e st i userWalletAddress pm (Some (of_int k))
          = (Response 400 (ErrorJson ''Quantity must be at least 1.''), st)" if "k < 1"
  proof -
    from that have "k \<le> 0" by simp
    then have "(of_int k :: rat) \<le> 0" by simp
    then show ?thesis using wallet by (simp add: purchase_initiate_def)
  qed
  have short: "code (fst (purchase_initiate e st i userWalletAddress pm (Some (of_int k)))) = 400 \<and>
        snd (purchase_initiate e st i userWalletAddress pm (Some (of_int k))) = st"
    if "1 \<le> k" "available_tickets ev < k"
  proof -
    from that(1) have "\<not> (of_int k :: rat) \<le> 0" by simp
    moreover from that(2) have "(of_int (available_tickets ev) :: rat) < of_int k" by simp
    ultimately show ?thesis using wallet ev(2) db by (simp add: purchase_initiate_def sel)
  qed
  let ?txn = "(pending_transaction i (case pm of None \<Rightarrow> ''SOL'' | Some m \<Rightarrow> m)
                (price_sol ev * of_int k))\<lparr>transaction_id := next_transaction_id st\<rparr>"
  have ok: "purchase_initiate e st i userWalletAddress pm (Some (of_int k))
             = (Response 200
                  (PurchaseInitiated
                     ''Purchase initiated. Please complete the minting process from your wallet.''
                     (candy_machine_id ev) (price_sol ev) (of_int k) (transaction_id ?txn)),
                st\<lparr>transactions := transactions st @ [?txn],
                   next_transaction_id := Suc (next_transaction_id st)\<rparr>)"
    if "1 \<le> k" "k \<le> available_tickets ev"
  proof -
    from that(1) have "\<not> (of_int k :: rat) \<le> 0" by simp
    moreover from that(2) have "\<not> (of_int (available_tickets ev) :: rat) < of_int k" by simp
    ultimately show ?thesis
      using wallet ev(2) db
      by (simp add: purchase_initiate_def sel insert_transaction_def Let_def)
  qed
  have props: "txn_status ?txn = ''pending'' \<and> amount ?txn = price_sol ev * of_int k \<and>
           txn_event_id ?txn = i \<and> transaction_id ?txn = next_transaction_id st"
    by (simp add: pending_transaction_def)
  show ?thesis using low short ok props by blast
qed

section \<open>Claims\<close>

subsection \<open>C1: recording a mint is idempotent in the asset identifier\<close>

text \<open>
  C1. On a store that keeps its key constraints, a mint-success call whose required fields
  are present and whose asset already has a Ticket row answers 200 "Ticket already
  processed." and leaves the store as it was, provided the lookup of the ticket itself
  comes back. Hence, after a first call for an asset has answered 200, a second call for
  the same asset (whatever its other fields) answers 200 and changes nothing: the asset
  has exactly one Ticket row, and where the first call created the row and its counter
  update went through, the event's \<open>available_tickets\<close> is one less than before the two
  calls.
\<close>

theorem recordMint_idempotent:
  assumes wf: "wf_store st"
    and fields: "\<not> falsy eventId2" "\<not> falsy owner2" "\<not> falsy sg2"
    and asset: "a \<noteq> []"
    and db: "\<not> select_ticket_fails e2"
  shows
   "(ticket_for st a \<noteq> None \<longrightarrow>
       mint_success e2 st eventId2 (Some a) owner2 sg2 tid2
         = (Response 200 (MessageJson ''Ticket already processed.''), st)) \<and>
    (code (fst (mint_success e1 st eventId1 (Some a) owner1 sg1 tid1)) = 200 \<longrightarrow>
       (let st1 = snd (mint_success e1 st eventId1 (Some a) owner1 sg1 tid1) in
          mint_success e2 st1 eventId2 (Some a) owner2 sg2 tid2
            = (Response 200 (MessageJson ''Ticket already processed.''), st1) \<and>
          length (filter (\<lambda>t. nft_mint_address t = a) (tickets st1)) = 1 \<and>
          (\<forall>ev. ticket_for st a = None \<and> event_for st (val eventId1) = Some ev \<and>
                \<not> update_event_fails e1 \<longrightarrow>
             event_for st1 (val eventId1)
               = Some (ev\<lparr>available_tickets := available_tickets ev - 1\<rparr>))))"
proof -
  let ?st1 = "snd (mint_success e1 st eventId1 (Some a) owner1 sg1 tid1)"
  have existing: "mint_success e2 s eventId2 (Some a) owner2 sg2 tid2
         = (Response 200 (MessageJson ''Ticket already processed.''), s)"
    if "wf_store s" "ticket_for s a \<noteq> None" for s
    using that fields asset db by (auto intro: mint_success_existing)
  have one: "length (filter (\<lambda>t. nft_mint_address t = a) (tickets s)) = 1"
    if "wf_store s" "ticket_for s a \<noteq> None" for s
    using that by (auto simp: wf_store_def ticket_for_def filter_distinct_key)
  have wf1: "wf_store ?st1" using wf by (rule wf_mint_success)
  have second: "ticket_for ?st1 a \<noteq> None \<and>
      (\<forall>ev. ticket_for st a = None \<and> event_for st (val eventId1) = Some ev \<and>
                \<not> update_event_fails e1 \<longrightarrow>
             event_for ?st1 (val eventId1)
               = Some (ev\<lparr>available_tickets := available_tickets ev - 1\<rparr>))"
    if ok: "code (fst (mint_success e1 st eventId1 (Some a) owner1 sg1 tid1)) = 200"
  proof (cases "ticket_for st a")
    case (Some t)
    then have "?st1 = st" by (rule mint_success_no_mutation)
    with Some show ?thesis by simp
  next
    case None
    from mint_success_new [OF None ok] obtain ev qr newTicket s1 where
      ev: "event_for st (val eventId1) = Some ev"
      and ins: "insert_ticket (insert_ticket_fails e1) st
          (new_ticket_row e1 (val eventId1) a (val owner1) (seat_label ev) qr) = Inr (newTicket, s1)"
      and st1: "?st1 = settle_transaction e1 tid1 (val sg1) newTicket
                (decrement_available e1 (val eventId1) ev s1)"
      by blast
    note i = insert_ticket_Inr [OF ins]
    have "nft_mint_address newTicket = a" using i(1) by (simp add: new_ticket_row_def)
    then have "ticket_for s1 a = Some newTicket"
      using None i(2) by (simp add: ticket_for_def find_snoc)
    then have t1: "ticket_for ?st1 a = Some newTicket"
      by (simp add: st1 ticket_for_def)
    have "event_for s1 (val eventId1) = Some ev" using ev i(3) by (simp add: event_for_def)
    then have "event_for ?st1 (val eventId1)
        = Some (if update_event_fails e1 then ev
                else ev\<lparr>available_tickets := available_tickets ev - 1\<rparr>)"
      by (simp add: st1 event_for_def [of "settle_transaction _ _ _ _ _"]
            event_for_decrement [unfolded event_for_def] event_for_def)
    with t1 ev show ?thesis by auto
  qed
  show ?thesis
    using existing [OF wf] existing [OF wf1] one [OF wf1] second by (auto simp: Let_def)
qed

theorem recordMint_idempotent_witness:
  "wf_store store0 \<and> \<not> falsy (Some ''event1'') \<and> \<not> falsy (Some ''walletX'') \<and>
   \<not> falsy (Some ''sig1'') \<and> ''assetA'' \<noteq> [] \<and> \<not> select_ticket_fails env0 \<and>
   ticket_for store0 ''assetA'' = None \<and> event_for store0 ''event1'' = Some event1 \<and>
   \<not> update_event_fails env0 \<and>
   mint_success env0 store0 (Some ''event1'') (Some ''assetA'') (Some ''walletX'') (Some ''sig1'') None
     = (Response 200 (MessageTicket ''Ticket successfully recorded and event updated.'' ticketA),
        store1) \<and>
   mint_success env0 store1 (Some ''event1'') (Some ''assetA'') (Some ''walletX'') (Some ''sig1'') None
     = (Response 200 (MessageJson ''Ticket already processed.''), store1) \<and>
   length (filter (\<lambda>t. nft_mint_address t = ''assetA'') (tickets store1)) = 1 \<and>
   event_for store1 ''event1'' = Some (event1\<lparr>available_tickets := available_tickets event1 - 1\<rparr>)"
proof -
  have wf: "wf_store store0" by (simp add: concrete_defs)
  have f: "\<not> falsy (Some ''event1'')" "\<not> falsy (Some ''walletX'')" "\<not> falsy (Some ''sig1'')"
    by (simp_all add: falsy_def)
  have a: "''assetA'' \<noteq> []" by simp
  have db: "\<not> select_ticket_fails env0" "\<not> update_event_fails env0" by (simp_all add: env0_def)
  have none: "ticket_for store0 ''assetA'' = None" by (simp add: concrete_defs)
  have ev: "event_for store0 ''event1'' = Some event1" by (simp add: concrete_defs)
  have first: "mint_success env0 store0 (Some ''event1'') (Some ''assetA'') (Some ''walletX'')
       (Some ''sig1'') None
     = (Response 200 (MessageTicket ''Ticket successfully recorded and event updated.'' ticketA),
        store1)"
    by (simp add: concrete_defs)
  show ?thesis
    using recordMint_idempotent [of store0 "Some ''event1''" "Some ''walletX''" "Some ''sig1''"
        "''assetA''" env0 None env0 "Some ''event1''" "Some ''walletX''" "Some ''sig1''" None,
        OF wf f a db(1)]
      wf f db none ev first
    by (simp add: Let_def)
qed

subsection \<open>C2: the bounds of the availability counter\<close>

text \<open>
  C2, as the code has it. For an event created with \<open>available_tickets = total_tickets\<close>
  and every sequence of mint-success calls run one after the other, after every step the
  event keeps its \<open>total_tickets\<close>, \<open>available_tickets\<close> is at most \<open>total_tickets\<close>, and it is at
  least \<open>total_tickets\<close> minus the number of Ticket rows recorded for the event since; so it
  is not negative as long as no more than \<open>total_tickets\<close> rows have been recorded. The
  handler subtracts one from the counter it read without any floor: when the counter
  update of every call so far went through, \<open>available_tickets\<close> is exactly \<open>total_tickets\<close>
  minus the number of rows recorded, and so is negative as soon as more rows have been
  recorded than the event has tickets. The counterexample is an event with one ticket and
  two minted assets.
\<close>

theorem available_tickets_bounds:
  assumes ev: "event_for st i = Some ev"
    and created: "available_tickets ev = total_tickets ev"
    and mints: "list_all is_mint rs"
  shows "\<forall>k\<le>length rs. \<exists>ev'.
           event_for (run st (take k rs)) i = Some ev' \<and>
           total_tickets ev' = total_tickets ev \<and>
           available_tickets ev' \<le> total_tickets ev' \<and>
           total_tickets ev' - (sold (run st (take k rs)) i - sold st i) \<le> available_tickets ev' \<and>
           (sold (run st (take k rs)) i - sold st i \<le> total_tickets ev' \<longrightarrow>
              0 \<le> available_tickets ev') \<and>
           (list_all counter_update_ok (take k rs) \<longrightarrow>
              available_tickets ev'
                = total_tickets ev' - (sold (run st (take k rs)) i - sold st i)) \<and>
           (list_all counter_update_ok (take k rs) \<and>
            total_tickets ev' < sold (run st (take k rs)) i - sold st i \<longrightarrow>
              available_tickets ev' < 0)"
proof (intro allI impI)
  fix k
  let ?s = "run st (take k rs)"
  have m: "list_all is_mint (take k rs)"
    using mints by (auto simp: list_all_iff dest: in_set_takeD)
  from run_mints_counter [OF ev m] obtain ev' where
    ev': "event_for ?s i = Some ev'" "total_tickets ev' = total_tickets ev"
      "available_tickets ev' \<le> available_tickets ev"
      "available_tickets ev - available_tickets ev' \<le> sold ?s i - sold st i"
    by blast
  have exact: "available_tickets ev' = total_tickets ev' - (sold ?s i - sold st i)"
    if "list_all counter_update_ok (take k rs)"
    using run_mints_counter_exact [OF ev m that] ev'(1,2) created by auto
  show "\<exists>ev'.
           event_for ?s i = Some ev' \<and>
           total_tickets ev' = total_tickets ev \<and>
           available_tickets ev' \<le> total_tickets ev' \<and>
           total_tickets ev' - (sold ?s i - sold st i) \<le> available_tickets ev' \<and>
           (sold ?s i - sold st i \<le> total_tickets ev' \<longrightarrow> 0 \<le> available_tickets ev') \<and>
           (list_all counter_update_ok (take k rs) \<longrightarrow>
              available_tickets ev' = total_tickets ev' - (sold ?s i - sold st i)) \<and>
           (list_all counter_update_ok (take k rs) \<and> total_tickets ev' < sold ?s i - sold st i \<longrightarrow>
              available_tickets ev' < 0)"
    using ev' created exact by (intro exI [of _ ev']) auto
qed

theorem available_tickets_bounds_witness:
  "event_for store0 ''event1'' = Some event1 \<and>
   available_tickets event1 = total_tickets event1 \<and>
   list_all is_mint mints0 \<and> 3 \<le> length mints0 \<and>
   list_all counter_update_ok (take 3 mints0) \<and>
   event_for (run store0 (take 3 mints0)) ''event1'' = Some (event1\<lparr>available_tickets := 1\<rparr>) \<and>
   total_tickets (event1\<lparr>available_tickets := 1\<rparr>) = 3 \<and>
   sold (run store0 (take 3 mints0)) ''event1'' - sold store0 ''event1'' = 2 \<and>
   available_tickets (event1\<lparr>available_tickets := 1\<rparr>)
     = total_tickets (event1\<lparr>available_tickets := 1\<rparr>)
         - (sold (run store0 (take 3 mints0)) ''event1'' - sold store0 ''event1'') \<and>
   event_for store_single ''event2'' = Some event_single \<and>
   available_tickets event_single = total_tickets event_single \<and>
   list_all is_mint mints_single \<and> 2 \<le> length mints_single \<and>
   list_all counter_update_ok (take 2 mints_single) \<and>
   total_tickets event_single
     < sold (run store_single (take 2 mints_single)) ''event2'' - sold store_single ''event2'' \<and>
   (\<exists>ev'. event_for (run store_single (take 2 mints_single)) ''event2'' = Some ev' \<and>
      available_tickets ev' < 0)"
proof -
  have ev: "event_for store0 ''event1'' = Some event1" by (simp add: concrete_defs)
  have created: "available_tickets event1 = total_tickets event1" by (simp add: event1_def)
  have mints: "list_all is_mint mints0" by (simp add: mints0_def)
  have k: "3 \<le> length mints0" by (simp add: mints0_def)
  have ok: "list_all counter_update_ok (take 3 mints0)" by (simp add: mints0_def env0_def)
  have vals: "event_for store2 ''event1'' = Some (event1\<lparr>available_tickets := 1\<rparr>)"
    "total_tickets (event1\<lparr>available_tickets := 1\<rparr>) = 3"
    "sold store2 ''event1'' - sold store0 ''event1'' = 2"
    by (simp_all add: concrete_defs sold_def store2_def ticketB_def)
  have first: "event_for (run store0 (take 3 mints0)) ''event1''
        = Some (event1\<lparr>available_tickets := 1\<rparr>) \<and>
      sold (run store0 (take 3 mints0)) ''event1'' - sold store0 ''event1'' = 2 \<and>
      available_tickets (event1\<lparr>available_tickets := 1\<rparr>)
        = total_tickets (event1\<lparr>available_tickets := 1\<rparr>)
            - (sold (run store0 (take 3 mints0)) ''event1'' - sold store0 ''event1'')"
    using available_tickets_bounds [OF ev created mints] k ok vals
    by (simp add: run_mints0)
  have ev2: "event_for store_single ''event2'' = Some event_single"
    by (simp add: store_single_def event_single_def event_for_def)
  have created2: "available_tickets event_single = total_tickets event_single"
    by (simp add: event_single_def)
  have mints2: "list_all is_mint mints_single" by (simp add: mints_single_def)
  have k2: "2 \<le> length mints_single" by (simp add: mints_single_def)
  have ok2: "list_all counter_update_ok (take 2 mints_single)"
    by (simp add: mints_single_def env0_def)
  have more: "total_tickets event_single
     < sold (run store_single (take 2 mints_single)) ''event2'' - sold store_single ''event2''"
    by (simp add: mints_single_def store_single_def event_single_def sold_def concrete_defs)
  from available_tickets_bounds [OF ev2 created2 mints2] k2 obtain ev' where
    ev': "event_for (run store_single (take 2 mints_single)) ''event2'' = Some ev'"
      "total_tickets ev' = total_tickets event_single"
      "list_all counter_update_ok (take 2 mints_single) \<and>
         total_tickets ev'
           < sold (run store_single (take 2 mints_single)) ''event2'' - sold store_single ''event2''
       \<longrightarrow> available_tickets ev' < 0"
    by blast
  from ev' ok2 more have neg: "\<exists>ev'. event_for (run store_single (take 2 mints_single)) ''event2''
      = Some ev' \<and> available_tickets ev' < 0"
    by auto
  show ?thesis
    using ev created mints k ok vals(2) first ev2 created2 mints2 k2 ok2 more neg by simp
qed

theorem available_tickets_goes_negative:
  "event_for store_single ''event2'' = Some event_single \<and>
   available_tickets event_single = total_tickets event_single \<and>
   list_all is_mint mints_single \<and>
   event_for (run store_single mints_single) ''event2''
     = Some (event_single\<lparr>available_tickets := - 1\<rparr>) \<and>
   \<not> 0 \<le> available_tickets (event_single\<lparr>available_tickets := - 1\<rparr>)"
  by (simp add: mints_single_def store_single_def event_single_def concrete_defs)

subsection \<open>C3: the contract of a single verification\<close>



subsection \<open>C4: the used flag is a one-way latch\<close>

text \<open>
  C4. Along every sequence of mint-success, transfer-update and verify calls, each with
  collaborators behaving in any way, a Ticket row whose \<open>is_used\<close> is set stays in the
  table with \<open>is_used\<close> set. Hence, on a store that keeps its key constraints, once a verify
  call for an asset has answered 200, a verify call for the same asset after any such
  sequence answers 409, whatever owner it asserts, provided its lookup of the ticket
  comes back.
\<close>

theorem used_latch:
  assumes wf: "wf_store st" and db: "\<not> select_ticket_fails e2"
  shows
    "(\<forall>t. ticket_for st a = Some t \<and> is_used t \<longrightarrow>
        (\<exists>t'. ticket_for (run st rs) a = Some t' \<and> is_used t' \<and> ticket_id t' = ticket_id t)) \<and>
     (code (fst (verify e st (Some a) asserted)) = 200 \<longrightarrow>
        verify e2 (run (snd (verify e st (Some a) asserted)) rs) (Some a) asserted2
          = (Response 409 (ErrorJson ''Ticket has already been used.''),
             run (snd (verify e st (Some a) asserted)) rs))"
proof -
  let ?st1 = "snd (verify e st (Some a) asserted)"
  have conflict: "verify e2 (run ?st1 rs) (Some a) asserted2
          = (Response 409 (ErrorJson ''Ticket has already been used.''), run ?st1 rs)"
    if ok: "code (fst (verify e st (Some a) asserted)) = 200"
  proof -
    from verify_ok_used [OF ok] obtain t where
      a: "a \<noteq> []" and t: "ticket_for ?st1 a = Some t" "is_used t"
      by blast
    from run_used [OF t, of rs] obtain t' where
      t': "ticket_for (run ?st1 rs) a = Some t'" "is_used t'"
      by blast
    have "wf_store (run ?st1 rs)" using wf by (intro wf_run wf_verify)
    then show ?thesis using a db t' by (rule verify_used)
  qed
  show ?thesis using run_used [of st a _ rs] conflict by blast
qed

theorem used_latch_witness:
  "wf_store store1 \<and> \<not> select_ticket_fails env0 \<and>
   code (fst (verify env0 store1 (Some ''assetA'') None)) = 200 \<and>
   verify env0 (run (snd (verify env0 store1 (Some ''assetA'') None)) calls0)
       (Some ''assetA'') (Some ''walletZ'')
     = (Response 409 (ErrorJson ''Ticket has already been used.''),
        run (snd (verify env0 store1 (Some ''assetA'') None)) calls0) \<and>
   wf_store store1_used \<and> ticket_for store1_used ''assetA'' = Some ticketA_used \<and>
   is_used ticketA_used \<and>
   (\<exists>t'. ticket_for (run store1_used calls0) ''assetA'' = Some t' \<and> is_used t' \<and>
      ticket_id t' = ticket_id ticketA_used)"
proof -
  have wf: "wf_store store1" "wf_store store1_used"
    by (simp_all add: concrete_defs store1_used_def ticketA_used_def)
  have db: "\<not> select_ticket_fails env0" by (simp add: env0_def)
  have ok: "code (fst (verify env0 store1 (Some ''assetA'') None)) = 200"
    by (simp add: concrete_defs)
  have t: "ticket_for store1_used ''assetA'' = Some ticketA_used" "is_used ticketA_used"
    by (simp_all add: concrete_defs store1_used_def ticketA_used_def)
  show ?thesis
    using used_latch [OF wf(1) db, of "''assetA''" calls0 env0 None "Some ''walletZ''"]
      used_latch [OF wf(2) db, of "''assetA''" calls0 env0 None None]
      wf db ok t
    by simp
qed

subsection \<open>C5: the contract of a recorded transfer\<close>

text \<open>
  C5. On a store that keeps its key constraints, with the three required fields present
  and the store answering: the transfer-update call answers 404 exactly when no Ticket row
  exists for the asset; when the stored owner already is the new owner it answers 200 and
  leaves the store as it was; otherwise it answers 200 and the row has the new owner,
  status \<open>transferred\<close> and the time of the call as last transfer date. After either
  outcome a second call with the same new owner answers 200 and leaves the store as the
  first call left it.
\<close>

theorem transfer_update_contract:
  assumes wf: "wf_store st"
    and fields: "a \<noteq> []" "n \<noteq> []" "\<not> falsy sg" "\<not> falsy sg2"
    and db: "\<not> select_ticket_fails e" "\<not> update_ticket_fails e" "\<not> select_ticket_fails e2"
  shows
    "(code (fst (transfer_update e st (Some a) (Some n) sg)) = 404 \<longleftrightarrow> ticket_for st a = None) \<and>
     (\<forall>t. ticket_for st a = Some t \<longrightarrow>
        (owner_wallet_address t = n \<longrightarrow>
           transfer_update e st (Some a) (Some n) sg
             = (Response 200 (MessageJson ''Ticket owner already up-to-date.''), st)) \<and>
        (owner_wallet_address t \<noteq> n \<longrightarrow>
           fst (transfer_update e st (Some a) (Some n) sg)
             = Response 200 (MessageTicketId ''Ticket owner updated successfully.'' (ticket_id t)) \<and>
           ticket_for (snd (transfer_update e st (Some a) (Some n) sg)) a
             = Some (t\<lparr>owner_wallet_address := n, status := ''transferred'',
                        last_transfer_date := Some (now e)\<rparr>)) \<and>
        transfer_update e2 (snd (transfer_update e st (Some a) (Some n) sg)) (Some a) (Some n) sg2
          = (Response 200 (MessageJson ''Ticket owner already up-to-date.''),
             snd (transfer_update e st (Some a) (Some n) sg)))"
proof -
  let ?r = "transfer_update e st (Some a) (Some n) sg"
  have nf: "\<not> falsy (Some a)" "\<not> falsy (Some n)" using fields by (simp_all add: falsy_def)
  have sel: "select_single False (\<lambda>t. nft_mint_address t = a) (tickets s)
      = (case ticket_for s a of None \<Rightarrow> Inl PGRST116 | Some r \<Rightarrow> Inr r)" if "wf_store s" for s
    using that by (simp add: wf_select_ticket)
  have c404: "code (fst ?r) = 404 \<longleftrightarrow> ticket_for st a = None"
    using nf fields db by (auto simp: transfer_update_def sel [OF wf] split: option.splits)
  have same: "transfer_update e' s (Some a) (Some n) sg' 
             = (Response 200 (MessageJson ''Ticket owner already up-to-date.''), s)"
    if "wf_store s" "ticket_for s a = Some t" "owner_wallet_address t = n"
       "\<not> select_ticket_fails e'" "\<not> falsy sg'" for s t e' sg'
    using that nf by (simp add: transfer_update_def sel)
  have upd: "fst ?r = Response 200 (MessageTicketId ''Ticket owner updated successfully.'' (ticket_id t))
      \<and> ticket_for (snd ?r) a
             = Some (t\<lparr>owner_wallet_address := n, status := ''transferred'',
                        last_transfer_date := Some (now e)\<rparr>)"
    if "ticket_for st a = Some t" "owner_wallet_address t \<noteq> n" for t
    using that nf fields db
    by (simp add: transfer_update_def sel [OF wf] ticket_for_update_where mark_transferred_def)
  have wf': "wf_store (snd ?r)" using wf by (rule wf_transfer_update)
  have again: "transfer_update e2 (snd ?r) (Some a) (Some n) sg2
          = (Response 200 (MessageJson ''Ticket owner already up-to-date.''), snd ?r)"
    if t: "ticket_for st a = Some t" for t
  proof (cases "owner_wallet_address t = n")
    case True
    have "snd ?r = st" using same [OF wf t True db(1) fields(3)] by simp
    then show ?thesis using same [OF wf t True db(3) fields(4)] by simp
  next
    case False
    from upd [OF t False] show ?thesis
      by (intro same [OF wf' _ _ db(3) fields(4)]) (erule conjE, assumption, simp)
  qed
  show ?thesis using c404 same [OF wf _ _ db(1) fields(3)] upd again by blast
qed

theorem transfer_update_contract_witness:
  "wf_store store1 \<and> ''assetA'' \<noteq> [] \<and> ''walletZ'' \<noteq> [] \<and> \<not> falsy (Some ''sig3'') \<and>
   \<not> select_ticket_fails env0 \<and> \<not> update_ticket_fails env0 \<and>
   ticket_for store1 ''assetA'' = Some ticketA \<and> owner_wallet_address ticketA \<noteq> ''walletZ'' \<and>
   code (fst (transfer_update env0 store1 (Some ''assetA'') (Some ''walletZ'') (Some ''sig3''))) \<noteq> 404 \<and>
   fst (transfer_update env0 store1 (Some ''assetA'') (Some ''walletZ'') (Some ''sig3''))
     = Response 200 (MessageTicketId ''Ticket owner updated successfully.'' 1) \<and>
   ticket_for (snd (transfer_update env0 store1 (Some ''assetA'') (Some ''walletZ'') (Some ''sig3'')))
       ''assetA''
     = Some (ticketA\<lparr>owner_wallet_address := ''walletZ'', status := ''transferred'',
                      last_transfer_date := Some (now env0)\<rparr>) \<and>
   transfer_update env0
       (snd (transfer_update env0 store1 (Some ''assetA'') (Some ''walletZ'') (Some ''sig3'')))
       (Some ''assetA'') (Some ''walletZ'') (Some ''sig3'')
     = (Response 200 (MessageJson ''Ticket owner already up-to-date.''),
        snd (transfer_update env0 store1 (Some ''assetA'') (Some ''walletZ'') (Some ''sig3'')))"
proof -
  have wf: "wf_store store1" by (simp add: concrete_defs)
  have f: "''assetA'' \<noteq> []" "''walletZ'' \<noteq> []" "\<not> falsy (Some ''sig3'')" "\<not> falsy (Some ''sig3'')"
    by (simp_all add: falsy_def)
  have db: "\<not> select_ticket_fails env0" "\<not> update_ticket_fails env0" "\<not> select_ticket_fails env0"
    by (simp_all add: env0_def)
  have t: "ticket_for store1 ''assetA'' = Some ticketA" by (simp add: concrete_defs)
  have own: "owner_wallet_address ticketA \<noteq> ''walletZ''" "ticket_id ticketA = 1"
    by (simp_all add: ticketA_def)
  show ?thesis
    using transfer_update_contract [OF wf f db] wf f db t own by simp
qed

subsection \<open>C6: the quantity check of a purchase\<close>

text \<open>
  C6. The purchase-initiate handler turns a request away for its quantity only when
  \<open>quantity \<le> 0\<close>, under the message "Quantity must be at least 1.". A quantity strictly
  between 0 and 1 passes that check: for the event with three available tickets at price
  1/2 and the quantity 1/2, which is not at least 1, the handler answers 200, returns the
  issuance-machine identifier and creates a pending Transaction of amount 1/4. For whole
  quantities the contract holds (\<open>purchase_initiate_whole_quantity\<close>).
\<close>

theorem purchase_initiate_accepts_fractional_quantity:
  "\<not> 1 \<le> (1 / 2 :: rat) \<and>
   purchase_initiate env0 store0 ''event1'' (Some ''walletX'') None (Some (1 / 2))
     = (Response 200
          (PurchaseInitiated
             ''Purchase initiated. Please complete the minting process from your wallet.''
             ''machine1'' (1 / 2) (1 / 2) 1),
        store0\<lparr>transactions := [txn_half], next_transaction_id := 2\<rparr>)"
  by (simp add: concrete_defs txn_half_def)

subsection \<open>C7: the seat label\<close>

text \<open>
  C7. A mint-success call that creates a new Ticket gives it the seat label "Ticket #"
  followed by the decimal of \<open>total_tickets - available_tickets + 1\<close>, computed from the
  event's counters as the call reads them. The witness is the scenario of an event with
  three tickets, all available: the first mint yields "Ticket #1" and two available, the
  repeated mint of the same asset changes nothing, and the mint of a second asset yields
  "Ticket #2" and one available.
\<close>

theorem seat_label_formula:
  assumes "mint_success e st eventId nft owner sg tid = (Response 200 (MessageTicket msg newTicket), st')"
    and "event_for st (val eventId) = Some ev"
  shows "seat_info newTicket = ''Ticket #'' @ show_int (total_tickets ev - available_tickets ev + 1) \<and>
         nft_mint_address newTicket = val nft \<and>
         tickets st' = tickets st @ [newTicket]"
proof -
  from mint_success_cases [OF assms(1)] obtain ev0 qr st1 where
    sel: "select_single (select_event_fails e) (\<lambda>r. event_id r = val eventId) (events st) = Inr ev0"
    and ins: "insert_ticket (insert_ticket_fails e) st
          (new_ticket_row e (val eventId) (val nft) (val owner) (seat_label ev0) qr)
            = Inr (newTicket, st1)"
    and st': "st' = settle_transaction e tid (val sg) newTicket
                (decrement_available e (val eventId) ev0 st1)"
    by auto
  from sel assms(2) have "ev0 = ev" by (auto dest: select_event_Inr)
  with insert_ticket_Inr(1,2) [OF ins] st' show ?thesis
    by (simp add: new_ticket_row_def seat_label_def)
qed

theorem seat_label_formula_witness:
  "mint_success env0 store0 (Some ''event1'') (Some ''assetA'') (Some ''walletX'') (Some ''sig1'') None
     = (Response 200 (MessageTicket ''Ticket successfully recorded and event updated.'' ticketA),
        store1) \<and>
   event_for store0 ''event1'' = Some event1 \<and>
   total_tickets event1 = 3 \<and> available_tickets event1 = 3 \<and>
   seat_info ticketA = ''Ticket #'' @ show_int (total_tickets event1 - available_tickets event1 + 1) \<and>
   seat_info ticketA = ''Ticket #1'' \<and>
   event_for store1 ''event1'' = Some (event1\<lparr>available_tickets := 2\<rparr>) \<and>
   mint_success env0 store1 (Some ''event1'') (Some ''assetA'') (Some ''walletX'') (Some ''sig1'') None
     = (Response 200 (MessageJson ''Ticket already processed.''), store1) \<and>
   mint_success env0 store1 (Some ''event1'') (Some ''assetB'') (Some ''walletY'') (Some ''sig2'') None
     = (Response 200 (MessageTicket ''Ticket successfully recorded and event updated.'' ticketB),
        store2) \<and>
   seat_info ticketB = ''Ticket #2'' \<and>
   event_for store2 ''event1'' = Some (event1\<lparr>available_tickets := 1\<rparr>)"
proof -
  have first: "mint_success env0 store0 (Some ''event1'') (Some ''assetA'') (Some ''walletX'')
       (Some ''sig1'') None
     = (Response 200 (MessageTicket ''Ticket successfully recorded and event updated.'' ticketA),
        store1)"
    by (simp add: concrete_defs)
  have ev: "event_for store0 (val (Some ''event1'')) = Some event1" by (simp add: concrete_defs)
  have dup: "mint_success env0 store1 (Some ''event1'') (Some ''assetA'') (Some ''walletX'')
       (Some ''sig1'') None
     = (Response 200 (MessageJson ''Ticket already processed.''), store1)"
    by (simp add: concrete_defs)
  have second: "mint_success env0 store1 (Some ''event1'') (Some ''assetB'') (Some ''walletY'')
       (Some ''sig2'') None
     = (Response 200 (MessageTicket ''Ticket successfully recorded and event updated.'' ticketB),
        store2)"
    by (simp add: concrete_defs ticketB_def store2_def)
  have vals: "total_tickets event1 = 3" "available_tickets event1 = 3"
    "seat_info ticketA = ''Ticket #1''" "seat_info ticketB = ''Ticket #2''"
    "event_for store1 ''event1'' = Some (event1\<lparr>available_tickets := 2\<rparr>)"
    "event_for store2 ''event1'' = Some (event1\<lparr>available_tickets := 1\<rparr>)"
    by (simp_all add: concrete_defs ticketB_def store2_def)
  show ?thesis
    using seat_label_formula [OF first ev] first ev dup second vals by simp
qed

subsection \<open>C8: no rollback after the ticket row is inserted\<close>

text \<open>
  C8. When a mint-success call gets as far as inserting the new Ticket row (required
  fields present, no row yet for the asset, the QR code generated, the event read, the
  insert accepted), then whether or not the update of \<open>available_tickets\<close> fails and whether
  or not the update of the Transaction fails, the call answers 200 with the new ticket
  and the new row stays in the tickets table.
\<close>

theorem mint_success_no_rollback:
  assumes wf: "wf_store st"
    and fields: "\<not> falsy eventId" "a \<noteq> []" "\<not> falsy owner" "\<not> falsy sg"
    and fresh: "ticket_for st a = None"
    and qr: "generateQrCodeDataUrl e a = Some qrCodeUrl"
    and ev: "event_for st (val eventId) = Some ev" "\<not> select_event_fails e"
    and ins: "\<not> insert_ticket_fails e"
  shows "\<exists>newTicket. nft_mint_address newTicket = a \<and>
     (\<forall>decrementFails linkFails.
        fst (mint_success (e\<lparr>update_event_fails := decrementFails,
                             update_transaction_fails := linkFails\<rparr>)
               st eventId (Some a) owner sg tid)
          = Response 200
              (MessageTicket ''Ticket successfully recorded and event updated.'' newTicket) \<and>
        tickets (snd (mint_success (e\<lparr>update_event_fails := decrementFails,
                                      update_transaction_fails := linkFails\<rparr>)
                        st eventId (Some a) owner sg tid))
          = tickets st @ [newTicket])"
proof -
  have sel_t: "select_single b (\<lambda>t. nft_mint_address t = a) (tickets st) \<noteq> Inr t" for b t
    using fresh by (auto dest: select_ticket_Inr)
  have sel_e: "select_single (select_event_fails e) (\<lambda>r. event_id r = val eventId) (events st) = Inr ev"
    using wf ev
    by (simp add: wf_store_def event_for_def select_single_distinct)
  have notin: "a \<notin> nft_mint_address ` set (tickets st)"
    using fresh by (simp add: ticket_for_def find_none_key)
  let ?t = "(new_ticket_row e (val eventId) a (val owner) (seat_label ev) qrCodeUrl)
              \<lparr>ticket_id := next_ticket_id st\<rparr>"
  have "nft_mint_address ?t = a" by (simp add: new_ticket_row_def)
  moreover have "fst (mint_success (e\<lparr>update_event_fails := b1, update_transaction_fails := b2\<rparr>)
               st eventId (Some a) owner sg tid)
          = Response 200 (MessageTicket ''Ticket successfully recorded and event updated.'' ?t) \<and>
        tickets (snd (mint_success (e\<lparr>update_event_fails := b1, update_transaction_fails := b2\<rparr>)
                        st eventId (Some a) owner sg tid))
          = tickets st @ [?t]" for b1 b2
    using fields qr ins notin sel_e sel_t
    by (auto simp: mint_success_def insert_ticket_def Let_def new_ticket_row_def falsy_def
          split: sum.splits)
  ultimately show ?thesis by blast
qed

theorem mint_success_no_rollback_witness:
  "wf_store store0 \<and> \<not> falsy (Some ''event1'') \<and> ''assetA'' \<noteq> [] \<and>
   \<not> falsy (Some ''walletX'') \<and> \<not> falsy (Some ''sig1'') \<and>
   ticket_for store0 ''assetA'' = None \<and>
   generateQrCodeDataUrl env0 ''assetA'' = Some ''data:image/png;base64,assetA'' \<and>
   event_for store0 (val (Some ''event1'')) = Some event1 \<and>
   \<not> select_event_fails env0 \<and> \<not> insert_ticket_fails env0 \<and>
   (\<exists>newTicket. nft_mint_address newTicket = ''assetA'' \<and>
     (\<forall>decrementFails linkFails.
        fst (mint_success (env0\<lparr>update_event_fails := decrementFails,
                               update_transaction_fails := linkFails\<rparr>)
               store0 (Some ''event1'') (Some ''assetA'') (Some ''walletX'') (Some ''sig1'') (Some 1))
          = Response 200
              (MessageTicket ''Ticket successfully recorded and event updated.'' newTicket) \<and>
        tickets (snd (mint_success (env0\<lparr>update_event_fails := decrementFails,
                                        update_transaction_fails := linkFails\<rparr>)
                        store0 (Some ''event1'') (Some ''assetA'') (Some ''walletX'') (Some ''sig1'')
                        (Some 1)))
          = tickets store0 @ [newTicket])) \<and>
   mint_success (env0\<lparr>update_event_fails := True, update_transaction_fails := True\<rparr>)
       store0 (Some ''event1'') (Some ''assetA'') (Some ''walletX'') (Some ''sig1'') (Some 1)
     = (Response 200 (MessageTicket ''Ticket successfully recorded and event updated.'' ticketA),
        store0\<lparr>tickets := [ticketA], next_ticket_id := 2\<rparr>)"
proof -
  have wf: "wf_store store0" by (simp add: concrete_defs)
  have f: "\<not> falsy (Some ''event1'')" "''assetA'' \<noteq> []" "\<not> falsy (Some ''walletX'')"
    "\<not> falsy (Some ''sig1'')"
    by (simp_all add: falsy_def)
  have none: "ticket_for store0 ''assetA'' = None" by (simp add: concrete_defs)
  have qr: "generateQrCodeDataUrl env0 ''assetA'' = Some ''data:image/png;base64,assetA''"
    by (simp add: env0_def)
  have ev: "event_for store0 (val (Some ''event1'')) = Some event1" "\<not> select_event_fails env0"
    by (simp_all add: concrete_defs)
  have ins: "\<not> insert_ticket_fails env0" by (simp add: env0_def)
  have run: "mint_success (env0\<lparr>update_event_fails := True, update_transaction_fails := True\<rparr>)
       store0 (Some ''event1'') (Some ''assetA'') (Some ''walletX'') (Some ''sig1'') (Some 1)
     = (Response 200 (MessageTicket ''Ticket successfully recorded and event updated.'' ticketA),
        store0\<lparr>tickets := [ticketA], next_ticket_id := 2\<rparr>)"
    by (simp add: concrete_defs)
  show ?thesis
    using mint_success_no_rollback [OF wf f none qr ev ins, of "Some 1"]
      wf f none qr ev ins run
    by simp
qed

subsection \<open>C9: a failed ledger lookup during verification\<close>

text \<open>
  C9, as the code has it. For a ticket that exists and is not used, with an address to
  check at hand, a ledger lookup that fails (the call errors instead of returning an
  owner) makes the ownership check answer false, and the verify call answers 403, the
  same answer as for another owner; the ticket stays unused and the store is unchanged.
  The claim's 5xx answer does not occur: the counterexample is a ticket held by its stored
  owner while the ledger is down.
\<close>

theorem verify_lookup_failure_is_forbidden:
  assumes wf: "wf_store st"
    and asset: "a \<noteq> []"
    and db: "\<not> select_ticket_fails e"
    and t: "ticket_for st a = Some t" "\<not> is_used t"
    and addr: "\<not> falsy asserted \<or> owner_wallet_address t \<noteq> []"
    and down: "findNftByMint e a = RpcError"
  shows "verify e st (Some a) asserted
           = (Response 403 (ErrorJson
                ''Ticket ownership verification failed on-chain. This ticket is not held by the expected wallet.''),
              st)"
  using assms
  by (auto simp: verify_def wf_select_ticket falsy_def Let_def verifyTicketOwnershipOnChain_def
        split: option.splits)

theorem verify_lookup_failure_is_forbidden_witness:
  "wf_store store1 \<and> ''assetA'' \<noteq> [] \<and> \<not> select_ticket_fails env_ledger_down \<and>
   ticket_for store1 ''assetA'' = Some ticketA \<and> \<not> is_used ticketA \<and>
   falsy None \<and> owner_wallet_address ticketA \<noteq> [] \<and>
   findNftByMint env_ledger_down ''assetA'' = RpcError \<and>
   verify env_ledger_down store1 (Some ''assetA'') None
     = (Response 403 (ErrorJson
          ''Ticket ownership verification failed on-chain. This ticket is not held by the expected wallet.''),
        store1)"
proof -
  have wf: "wf_store store1" by (simp add: concrete_defs)
  have a: "''assetA'' \<noteq> []" by simp
  have db: "\<not> select_ticket_fails env_ledger_down" by (simp add: env_ledger_down_def env0_def)
  have t: "ticket_for store1 ''assetA'' = Some ticketA" "\<not> is_used ticketA"
    by (simp_all add: concrete_defs)
  have addr: "\<not> falsy None \<or> owner_wallet_address ticketA \<noteq> []" by (simp add: ticketA_def)
  have down: "findNftByMint env_ledger_down ''assetA'' = RpcError"
    by (simp add: env_ledger_down_def)
  show ?thesis
    using verify_lookup_failure_is_forbidden [OF wf a db t addr down] wf a db t down
    by (simp add: falsy_def ticketA_def)
qed

theorem verify_lookup_failure_not_5xx:
  "ticket_for store1 ''assetA'' = Some ticketA \<and> \<not> is_used ticketA \<and>
   findNftByMint env_ledger_down ''assetA'' = RpcError \<and>
   code (fst (verify env_ledger_down store1 (Some ''assetA'') None)) = 403 \<and>
   \<not> 500 \<le> code (fst (verify env_ledger_down store1 (Some ''assetA'') None))"
  by (simp add: concrete_defs env_ledger_down_def)

subsection \<open>C10: a recorded transfer leaves the used flag alone\<close>

text \<open>
  C10. A transfer-update call leaves events, transactions and the sequences as they were,
  and every Ticket row either as it was or with exactly the owner, the status and the last
  transfer date rewritten; \<open>is_used\<close> is the same in every row. In particular, on a ticket
  that is already used (status \<open>used\<close>) and held by another owner, the call rewrites the
  status to \<open>transferred\<close> while \<open>is_used\<close> stays set, and a verification of that asset
  afterwards still answers 409.
\<close>

theorem transfer_update_keeps_used:
  assumes wf: "wf_store st"
    and fields: "a \<noteq> []" "n \<noteq> []" "\<not> falsy sg"
    and db: "\<not> select_ticket_fails e" "\<not> update_ticket_fails e" "\<not> select_ticket_fails e2"
  shows
    "events (snd (transfer_update e st (Some a) (Some n) sg)) = events st \<and>
     transactions (snd (transfer_update e st (Some a) (Some n) sg)) = transactions st \<and>
     list_all2 (\<lambda>r r'. r' = r \<or>
          r' = r\<lparr>owner_wallet_address := n, status := ''transferred'',
                 last_transfer_date := Some (now e)\<rparr>)
       (tickets st) (tickets (snd (transfer_update e st (Some a) (Some n) sg))) \<and>
     map is_used (tickets (snd (transfer_update e st (Some a) (Some n) sg)))
       = map is_used (tickets st) \<and>
     (\<forall>t. ticket_for st a = Some t \<and> is_used t \<and> status t = ''used'' \<and>
           owner_wallet_address t \<noteq> n \<longrightarrow>
        ticket_for (snd (transfer_update e st (Some a) (Some n) sg)) a
          = Some (t\<lparr>owner_wallet_address := n, status := ''transferred'',
                     last_transfer_date := Some (now e)\<rparr>) \<and>
        is_used (t\<lparr>owner_wallet_address := n, status := ''transferred'',
                    last_transfer_date := Some (now e)\<rparr>) \<and>
        verify e2 (snd (transfer_update e st (Some a) (Some n) sg)) (Some a) asserted
          = (Response 409 (ErrorJson ''Ticket has already been used.''),
             snd (transfer_update e st (Some a) (Some n) sg)))"
proof -
  let ?st' = "snd (transfer_update e st (Some a) (Some n) sg)"
  have rows: "list_all2 (\<lambda>r r'. r' = r \<or>
          r' = r\<lparr>owner_wallet_address := n, status := ''transferred'',
                 last_transfer_date := Some (now e)\<rparr>) (tickets st) (tickets ?st')"
    using transfer_update_frame_rows [where newOwner = "Some n" and nft = "Some a"] by simp
  have "list_all2 (\<lambda>r r'. is_used r' = is_used r) (tickets st) (tickets ?st')"
    by (rule list_all2_mono [OF rows]) auto
  then have used: "map is_used (tickets ?st') = map is_used (tickets st)"
    by (induction rule: list_all2_induct) auto
  have wf': "wf_store ?st'" using wf by (rule wf_transfer_update)
  have sel: "select_single False (\<lambda>t. nft_mint_address t = a) (tickets st)
      = (case ticket_for st a of None \<Rightarrow> Inl PGRST116 | Some r \<Rightarrow> Inr r)"
    using wf by (simp add: wf_select_ticket)
  have moved: "ticket_for ?st' a
          = Some (t\<lparr>owner_wallet_address := n, status := ''transferred'',
                     last_transfer_date := Some (now e)\<rparr>)"
    if "ticket_for st a = Some t" "owner_wallet_address t \<noteq> n" for t
    using that fields db
    by (simp add: transfer_update_def sel falsy_def ticket_for_update_where mark_transferred_def)
  have conflict: "verify e2 ?st' (Some a) asserted
          = (Response 409 (ErrorJson ''Ticket has already been used.''), ?st')"
    if "ticket_for st a = Some t" "owner_wallet_address t \<noteq> n" "is_used t" for t
    using verify_used [OF wf' fields(1) db(3) moved [OF that(1,2)]] that(3) by simp
  show ?thesis
    using transfer_update_frame_rest [of e st "Some a" "Some n" sg] rows used moved conflict
    by auto
qed

theorem transfer_update_keeps_used_witness:
  "wf_store store1_used \<and> ''assetA'' \<noteq> [] \<and> ''walletZ'' \<noteq> [] \<and> \<not> falsy (Some ''sig3'') \<and>
   \<not> select_ticket_fails env0 \<and> \<not> update_ticket_fails env0 \<and>
   ticket_for store1_used ''assetA'' = Some ticketA_used \<and> is_used ticketA_used \<and>
   status ticketA_used = ''used'' \<and> owner_wallet_address ticketA_used \<noteq> ''walletZ'' \<and>
   map is_used (tickets (snd (transfer_update env0 store1_used (Some ''assetA'') (Some ''walletZ'')
                                 (Some ''sig3''))))
     = map is_used (tickets store1_used) \<and>
   ticket_for (snd (transfer_update env0 store1_used (Some ''assetA'') (Some ''walletZ'')
                      (Some ''sig3''))) ''assetA''
     = Some (ticketA_used\<lparr>owner_wallet_address := ''walletZ'', status := ''transferred'',
                           last_transfer_date := Some (now env0)\<rparr>) \<and>
   verify env0 (snd (transfer_update env0 store1_used (Some ''assetA'') (Some ''walletZ'')
                       (Some ''sig3''))) (Some ''assetA'') (Some ''walletZ'')
     = (Response 409 (ErrorJson ''Ticket has already been used.''),
        snd (transfer_update env0 store1_used (Some ''assetA'') (Some ''walletZ'') (Some ''sig3'')))"
proof -
  have wf: "wf_store store1_used" by (simp add: concrete_defs store1_used_def ticketA_used_def)
  have f: "''assetA'' \<noteq> []" "''walletZ'' \<noteq> []" "\<not> falsy (Some ''sig3'')"
    by (simp_all add: falsy_def)
  have db: "\<not> select_ticket_fails env0" "\<not> update_ticket_fails env0" "\<not> select_ticket_fails env0"
    by (simp_all add: env0_def)
  have t: "ticket_for store1_used ''assetA'' = Some ticketA_used"
    by (simp add: concrete_defs store1_used_def ticketA_used_def)
  have u: "is_used ticketA_used" "status ticketA_used = ''used''"
    "owner_wallet_address ticketA_used \<noteq> ''walletZ''"
    by (simp_all add: ticketA_used_def ticketA_def)
  show ?thesis
    using transfer_update_keeps_used [OF wf f db, of "Some ''walletZ''"] wf f db t u by simp
qed

end
